theory Spec2Isabelle
  imports Main "HOL-Library.Sublist"
begin

section \<open>The Kubernetes scheduler driver of torpedo (drivers/scheduler/k8s/k8s.go)\<close>

subsection \<open>Resource objects\<close>

text \<open>
  An AppSpec hands the driver values of Go type \<^verbatim>\<open>interface{}\<close>; the driver finds the kind
  of each with a type assertion (\<^verbatim>\<open>storage.(*storage_v1beta1.StorageClass)\<close>, ...). The only
  field the driver reads is \<^verbatim>\<open>obj.Name\<close>, so an object of one of the three kinds it knows is
  its kind and its name. An object of any other type is \<open>OtherKind\<close>, with a text that tells
  it apart. Objects are not nil: on a nil pointer of a known type \<^verbatim>\<open>obj.Name\<close>
  would panic, and no spec of the repository builds one.
\<close>

datatype ResourceObject =
    StorageClass string
  | PersistentVolumeClaim string
  | Deployment string
  | OtherKind string

text \<open>
  \<^verbatim>\<open>fmt.Sprintf("%#v", obj)\<close> prints the whole struct behind the object in Go syntax, which
  is more than this model holds of an object. The text it gives is therefore not computed
  here: every operation that builds a cause with \<^verbatim>\<open>%#v\<close> takes the function \<open>goSyntax\<close>, from
  an object to that text, as its first argument.
\<close>

type_synonym formatter = "ResourceObject \<Rightarrow> string"

text \<open>The kinds the storage loops and the core loops have a branch for.\<close>

fun storageKind :: "ResourceObject \<Rightarrow> bool" where
  "storageKind (StorageClass n) = True"
| "storageKind (PersistentVolumeClaim n) = True"
| "storageKind (Deployment n) = False"
| "storageKind (OtherKind s) = False"

fun coreKind :: "ResourceObject \<Rightarrow> bool" where
  "coreKind (Deployment n) = True"
| "coreKind (StorageClass n) = False"
| "coreKind (PersistentVolumeClaim n) = False"
| "coreKind (OtherKind s) = False"

fun claimKind :: "ResourceObject \<Rightarrow> bool" where
  "claimKind (PersistentVolumeClaim n) = True"
| "claimKind (StorageClass n) = False"
| "claimKind (Deployment n) = False"
| "claimKind (OtherKind s) = False"

subsection \<open>Specs, contexts, nodes and errors\<close>

record AppSpec =
  Key :: string
  Storage :: "string \<Rightarrow> ResourceObject list"
  Core :: "string \<Rightarrow> ResourceObject list"

record Context =
  UID :: string
  App :: AppSpec

record ScheduleOptions =
  AppKeys :: "string list"

datatype NodeType = NodeTypeMaster | NodeTypeWorker

record Node =
  Name :: string
  Addresses :: "string list"
  Type :: NodeType

text \<open>
  The node the cluster reports (\<^verbatim>\<open>v1.Node\<close>): \<^verbatim>\<open>n.Name\<close> and \<^verbatim>\<open>n.Status.Addresses\<close>, each
  address with its \<^verbatim>\<open>Type\<close> (a string in client-go) and its \<^verbatim>\<open>Address\<close>.
\<close>

record NodeAddress =
  AddressType :: string
  Address :: string

record v1_Node =
  NodeName :: string
  StatusAddresses :: "NodeAddress list"

definition NodeExternalIP :: string where
  "NodeExternalIP = ''ExternalIP''"

definition NodeInternalIP :: string where
  "NodeInternalIP = ''InternalIP''"

text \<open>
  The driver's own state: \<^verbatim>\<open>type k8s struct { nodes []scheduler.Node }\<close>. Only \<open>Init\<close> reads
  or writes it; the other operations take no receiver here.
\<close>

record k8s =
  nodes :: "Node list"

text \<open>
  The error values the driver builds, each with the \<^verbatim>\<open>App\<close> and \<^verbatim>\<open>Cause\<close> of its struct
  literal. \<open>Schedule\<close> also hands on, unchanged, the error of \<^verbatim>\<open>factory.Get\<close>; the factory is
  not among the sources, and its error is the \<open>UnknownAppKind\<close> of the spec's error list,
  here with the key that was asked for.
\<close>

datatype error =
    ErrFailedToScheduleApp AppSpec string
  | ErrFailedToValidateApp AppSpec string
  | ErrFailedToDestroyApp AppSpec string
  | ErrFailedToValidateAppDestroy AppSpec string
  | ErrFailedToGetVolumesForApp AppSpec string
  | ErrFailedToGetVolumesParameters AppSpec string
  | ErrFailedToValidateStorage AppSpec string
  | ErrFailedToDestroyStorage AppSpec string
  | ErrUnknownAppKind string

subsection \<open>The cluster client and the spec factory\<close>

text \<open>
  Package \<^verbatim>\<open>k8sutils\<close> talks to the cluster. What the cluster answers may depend on
  everything that was asked of it before, so the state of the world is the list of calls
  issued so far, and each function of the package maps that history and its argument to
  its answer. An error of the package is its message (what \<^verbatim>\<open>%v\<close> prints): \<open>Inl\<close> of a
  sum, or \<open>Some\<close> where the Go function returns only an error.
\<close>

datatype k8s_call =
    GetNodesCall
  | CreateStorageClassCall string
  | CreatePersistentVolumeClaimCall string
  | CreateDeploymentCall string
  | ValidateDeployementCall string
  | DeleteDeploymentCall string
  | ValidateTerminatedDeploymentCall string
  | GetVolumeForPersistentVolumeClaimCall string
  | GetPersistentVolumeClaimParamsCall string
  | ValidateStorageClassCall string
  | ValidatePersistentVolumeClaimCall string
  | DeleteStorageClassCall string
  | DeletePersistentVolumeClaimCall string

type_synonym world = "k8s_call list"

record k8sutils =
  GetNodes :: "world \<Rightarrow> string + v1_Node list"
  IsNodeMaster :: "v1_Node \<Rightarrow> bool"
  CreateStorageClass :: "world \<Rightarrow> string \<Rightarrow> string + string"
  CreatePersistentVolumeClaim :: "world \<Rightarrow> string \<Rightarrow> string + string"
  CreateDeployment :: "world \<Rightarrow> string \<Rightarrow> string + string"
  ValidateDeployement :: "world \<Rightarrow> string \<Rightarrow> string option"
  DeleteDeployment :: "world \<Rightarrow> string \<Rightarrow> string option"
  ValidateTerminatedDeployment :: "world \<Rightarrow> string \<Rightarrow> string option"
  GetVolumeForPersistentVolumeClaim :: "world \<Rightarrow> string \<Rightarrow> string + string"
  GetPersistentVolumeClaimParams :: "world \<Rightarrow> string \<Rightarrow> string + (string \<rightharpoonup> string)"
  ValidateStorageClass :: "world \<Rightarrow> string \<Rightarrow> string option"
  ValidatePersistentVolumeClaim :: "world \<Rightarrow> string \<Rightarrow> string option"
  DeleteStorageClass :: "world \<Rightarrow> string \<Rightarrow> string option"
  DeletePersistentVolumeClaim :: "world \<Rightarrow> string \<Rightarrow> string option"

text \<open>
  Package \<^verbatim>\<open>factory\<close> is called as \<^verbatim>\<open>factory.Get(key)\<close> and \<^verbatim>\<open>factory.GetAll()\<close>; the driver
  takes it as it is.
\<close>

record factory =
  Get :: "string \<Rightarrow> error + AppSpec"
  GetAll :: "AppSpec list"

text \<open>
  The App Spec Factory itself (package \<^verbatim>\<open>spec/factory\<close>) is not among the sources. Its
  registry lists the registered specs by key, in registration order.
\<close>

type_synonym registry = "(string \<times> AppSpec) list"

text \<open>
  Modelled from the spec: \<^verbatim>\<open>factory.Register\<close>, missing from the sources. It adds a spec under
  its key at the end of the registry and fails when the key is already registered.
\<close>

definition Register :: "string \<Rightarrow> AppSpec \<Rightarrow> registry \<Rightarrow> registry option" where
  "Register key spec reg =
     (case map_of reg key of
        Some old \<Rightarrow> None
      | None \<Rightarrow> Some (reg @ [(key, spec)]))"

text \<open>
  Modelled from the spec: \<^verbatim>\<open>factory.Get\<close> and \<^verbatim>\<open>factory.GetAll\<close>, missing from the sources.
  \<open>Get\<close> gives the spec registered under the key and fails with \<open>UnknownAppKind\<close> when the
  key is absent; \<open>GetAll\<close> gives every registered spec in registration order.
\<close>

definition factoryOf :: "registry \<Rightarrow> factory" where
  "factoryOf reg =
     \<lparr> Get = (\<lambda>key. case map_of reg key of
                       None \<Rightarrow> Inl (ErrUnknownAppKind key)
                     | Some spec \<Rightarrow> Inr spec),
       GetAll = map snd reg \<rparr>"

subsection \<open>Loops\<close>

text \<open>
  \<^verbatim>\<open>for _, x := range xs { ... }\<close> whose body may return an error: the body takes the
  element and the state and gives the error it returns, if any, and the new state; the
  first error ends the loop.
\<close>

fun forEach :: "'a list \<Rightarrow> ('a \<Rightarrow> 's \<Rightarrow> 'e option \<times> 's) \<Rightarrow> 's \<Rightarrow> 'e option \<times> 's" where
  "forEach [] body s = (None, s)"
| "forEach (x # xs) body s =
     (case body x s of
        (Some e, s') \<Rightarrow> (Some e, s')
      | (None, s') \<Rightarrow> forEach xs body s')"

subsection \<open>Init\<close>

definition nodeAddrs :: "NodeAddress list \<Rightarrow> string list" where
  "nodeAddrs as =
     foldl (\<lambda>addrs addr.
              if AddressType addr = NodeExternalIP \<or> AddressType addr = NodeInternalIP
              then addrs @ [Address addr] else addrs) [] as"

definition nodeOf :: "k8sutils \<Rightarrow> v1_Node \<Rightarrow> Node" where
  "nodeOf K n =
     \<lparr> Name = NodeName n,
       Addresses = nodeAddrs (StatusAddresses n),
       Type = (if IsNodeMaster K n then NodeTypeMaster else NodeTypeWorker) \<rparr>"

definition Init :: "k8sutils \<Rightarrow> k8s \<Rightarrow> world \<Rightarrow> (string option \<times> k8s) \<times> world" where
  "Init K k h =
     (case GetNodes K h of
        Inl err \<Rightarrow> ((Some err, k), h @ [GetNodesCall])
      | Inr items \<Rightarrow>
          ((None, foldl (\<lambda>k n. k\<lparr>nodes := nodes k @ [nodeOf K n]\<rparr>) k items),
           h @ [GetNodesCall]))"

subsection \<open>Schedule\<close>

text \<open>
  The bodies of the storage loop and of the core loop. The \<^verbatim>\<open>logrus.Printf\<close> lines of the
  driver only write to the log and are left out, here and below.
\<close>

definition createStorage :: "formatter \<Rightarrow> k8sutils \<Rightarrow> AppSpec \<Rightarrow> ResourceObject \<Rightarrow> world \<Rightarrow> error option \<times> world" where
  "createStorage goSyntax K spec storage h =
     (case storage of
        StorageClass obj \<Rightarrow>
          (case CreateStorageClass K h obj of
             Inl err \<Rightarrow>
               (Some (ErrFailedToScheduleApp spec
                  (''Failed to create storage class: '' @ obj @ ''. Err: '' @ err)),
                h @ [CreateStorageClassCall obj])
           | Inr sc \<Rightarrow> (None, h @ [CreateStorageClassCall obj]))
      | PersistentVolumeClaim obj \<Rightarrow>
          (case CreatePersistentVolumeClaim K h obj of
             Inl err \<Rightarrow>
               (Some (ErrFailedToScheduleApp spec
                  (''Failed to create PVC: '' @ obj @ ''. Err: '' @ err)),
                h @ [CreatePersistentVolumeClaimCall obj])
           | Inr pvc \<Rightarrow> (None, h @ [CreatePersistentVolumeClaimCall obj]))
      | _ \<Rightarrow>
          (Some (ErrFailedToScheduleApp spec
             (''Failed to create unsupported storage component: '' @ goSyntax storage @ ''.'')),
           h))"

definition createCore :: "formatter \<Rightarrow> k8sutils \<Rightarrow> AppSpec \<Rightarrow> ResourceObject \<Rightarrow> world \<Rightarrow> error option \<times> world" where
  "createCore goSyntax K spec core h =
     (case core of
        Deployment obj \<Rightarrow>
          (case CreateDeployment K h obj of
             Inl err \<Rightarrow>
               (Some (ErrFailedToScheduleApp spec
                  (''Failed to create Deployment: '' @ obj @ ''. Err: '' @ err)),
                h @ [CreateDeploymentCall obj])
           | Inr dep \<Rightarrow> (None, h @ [CreateDeploymentCall obj]))
      | _ \<Rightarrow>
          (Some (ErrFailedToScheduleApp spec
             (''Failed to create unsupported core component: '' @ goSyntax core @ ''.'')),
           h))"

text \<open>
  One round of the loop over the specs: the storage loop, the core loop, then the new
  Context is appended. The state is the local \<^verbatim>\<open>contexts\<close> and the world.
\<close>

definition scheduleSpec ::
  "formatter \<Rightarrow> k8sutils \<Rightarrow> string \<Rightarrow> AppSpec \<Rightarrow> Context list \<times> world \<Rightarrow> error option \<times> (Context list \<times> world)" where
  "scheduleSpec goSyntax K instanceID spec st =
     (case st of (contexts, h) \<Rightarrow>
        (case forEach (Storage spec instanceID) (createStorage goSyntax K spec) h of
           (Some e, h1) \<Rightarrow> (Some e, (contexts, h1))
         | (None, h1) \<Rightarrow>
             (case forEach (Core spec instanceID) (createCore goSyntax K spec) h1 of
                (Some e, h2) \<Rightarrow> (Some e, (contexts, h2))
              | (None, h2) \<Rightarrow>
                  (None, (contexts @ [\<lparr>UID = instanceID, App = spec\<rparr>], h2)))))"

text \<open>The first block of \<open>Schedule\<close>: the specs of the listed keys, or all of them.\<close>

definition resolveSpecs :: "factory \<Rightarrow> ScheduleOptions \<Rightarrow> error option \<times> AppSpec list" where
  "resolveSpecs F options =
     (if AppKeys options \<noteq> [] then
        forEach (AppKeys options)
          (\<lambda>key specs. case Get F key of
                          Inl err \<Rightarrow> (Some err, specs)
                        | Inr spec \<Rightarrow> (None, specs @ [spec]))
          []
      else (None, GetAll F))"

text \<open>
  \<open>Schedule\<close> returns \<^verbatim>\<open>nil\<close> for the contexts with every error (a nil slice is the empty
  list).
\<close>

definition Schedule ::
  "formatter \<Rightarrow> factory \<Rightarrow> k8sutils \<Rightarrow> string \<Rightarrow> ScheduleOptions \<Rightarrow> world \<Rightarrow> (Context list \<times> error option) \<times> world" where
  "Schedule goSyntax F K instanceID options h =
     (case resolveSpecs F options of
        (Some err, specs) \<Rightarrow> (([], Some err), h)
      | (None, specs) \<Rightarrow>
          (case forEach specs (scheduleSpec goSyntax K instanceID) ([], h) of
             (Some e, (contexts, h')) \<Rightarrow> (([], Some e), h')
           | (None, (contexts, h')) \<Rightarrow> ((contexts, None), h')))"

subsection \<open>WaitForRunning, Destroy, WaitForDestroy\<close>

definition validateCore :: "formatter \<Rightarrow> k8sutils \<Rightarrow> Context \<Rightarrow> ResourceObject \<Rightarrow> world \<Rightarrow> error option \<times> world" where
  "validateCore goSyntax K ctx core h =
     (case core of
        Deployment obj \<Rightarrow>
          (case ValidateDeployement K h obj of
             Some err \<Rightarrow>
               (Some (ErrFailedToValidateApp (App ctx)
                  (''Failed to validate Deployment: '' @ obj @ ''. Err: '' @ err)),
                h @ [ValidateDeployementCall obj])
           | None \<Rightarrow> (None, h @ [ValidateDeployementCall obj]))
      | _ \<Rightarrow>
          (Some (ErrFailedToValidateApp (App ctx)
             (''Failed to validate unsupported core component: '' @ goSyntax core @ ''.'')),
           h))"

definition WaitForRunning :: "formatter \<Rightarrow> k8sutils \<Rightarrow> Context \<Rightarrow> world \<Rightarrow> error option \<times> world" where
  "WaitForRunning goSyntax K ctx h = forEach (Core (App ctx) (UID ctx)) (validateCore goSyntax K ctx) h"

definition destroyCore :: "formatter \<Rightarrow> k8sutils \<Rightarrow> Context \<Rightarrow> ResourceObject \<Rightarrow> world \<Rightarrow> error option \<times> world" where
  "destroyCore goSyntax K ctx core h =
     (case core of
        Deployment obj \<Rightarrow>
          (case DeleteDeployment K h obj of
             Some err \<Rightarrow>
               (Some (ErrFailedToDestroyApp (App ctx)
                  (''Failed to destroy Deployment: '' @ obj @ ''. Err: '' @ err)),
                h @ [DeleteDeploymentCall obj])
           | None \<Rightarrow> (None, h @ [DeleteDeploymentCall obj]))
      | _ \<Rightarrow>
          (Some (ErrFailedToDestroyApp (App ctx)
             (''Failed to destroy unsupported core component: '' @ goSyntax core @ ''.'')),
           h))"

definition Destroy :: "formatter \<Rightarrow> k8sutils \<Rightarrow> Context \<Rightarrow> world \<Rightarrow> error option \<times> world" where
  "Destroy goSyntax K ctx h = forEach (Core (App ctx) (UID ctx)) (destroyCore goSyntax K ctx) h"

definition validateDestroyCore :: "formatter \<Rightarrow> k8sutils \<Rightarrow> Context \<Rightarrow> ResourceObject \<Rightarrow> world \<Rightarrow> error option \<times> world" where
  "validateDestroyCore goSyntax K ctx core h =
     (case core of
        Deployment obj \<Rightarrow>
          (case ValidateTerminatedDeployment K h obj of
             Some err \<Rightarrow>
               (Some (ErrFailedToValidateAppDestroy (App ctx)
                  (''Failed to validate destroy of deployment: '' @ obj @ ''. Err: '' @ err)),
                h @ [ValidateTerminatedDeploymentCall obj])
           | None \<Rightarrow> (None, h @ [ValidateTerminatedDeploymentCall obj]))
      | _ \<Rightarrow>
          (Some (ErrFailedToValidateAppDestroy (App ctx)
             (''Failed to validate destory of unsupported core component: '' @ goSyntax core @ ''.'')),
           h))"

definition WaitForDestroy :: "formatter \<Rightarrow> k8sutils \<Rightarrow> Context \<Rightarrow> world \<Rightarrow> error option \<times> world" where
  "WaitForDestroy goSyntax K ctx h = forEach (Core (App ctx) (UID ctx)) (validateDestroyCore goSyntax K ctx) h"

subsection \<open>GetVolumes, GetVolumeParameters\<close>

text \<open>The state of these two loops is the local result and the world.\<close>

definition volumeOf ::
  "k8sutils \<Rightarrow> Context \<Rightarrow> ResourceObject \<Rightarrow> string list \<times> world \<Rightarrow> error option \<times> (string list \<times> world)" where
  "volumeOf K ctx storage st =
     (case st of (volumes, h) \<Rightarrow>
        (case storage of
           PersistentVolumeClaim obj \<Rightarrow>
             (case GetVolumeForPersistentVolumeClaim K h obj of
                Inl err \<Rightarrow>
                  (Some (ErrFailedToGetVolumesForApp (App ctx)
                     (''Failed to get volume for PVC: '' @ obj @ ''. Err: '' @ err)),
                   (volumes, h @ [GetVolumeForPersistentVolumeClaimCall obj]))
              | Inr vol \<Rightarrow>
                  (None, (volumes @ [vol], h @ [GetVolumeForPersistentVolumeClaimCall obj])))
         | _ \<Rightarrow> (None, (volumes, h))))"

definition GetVolumes :: "k8sutils \<Rightarrow> Context \<Rightarrow> world \<Rightarrow> (string list \<times> error option) \<times> world" where
  "GetVolumes K ctx h =
     (case forEach (Storage (App ctx) (UID ctx)) (volumeOf K ctx) ([], h) of
        (Some e, (volumes, h')) \<Rightarrow> (([], Some e), h')
      | (None, (volumes, h')) \<Rightarrow> ((volumes, None), h'))"

definition volumeParamsOf ::
  "k8sutils \<Rightarrow> Context \<Rightarrow> ResourceObject \<Rightarrow> (string \<rightharpoonup> (string \<rightharpoonup> string)) \<times> world \<Rightarrow>
     error option \<times> ((string \<rightharpoonup> (string \<rightharpoonup> string)) \<times> world)" where
  "volumeParamsOf K ctx storage st =
     (case st of (result, h) \<Rightarrow>
        (case storage of
           PersistentVolumeClaim obj \<Rightarrow>
             (case GetVolumeForPersistentVolumeClaim K h obj of
                Inl err \<Rightarrow>
                  (Some (ErrFailedToGetVolumesParameters (App ctx)
                     (''failed to get volume for PVC: '' @ obj @ ''. Err: '' @ err)),
                   (result, h @ [GetVolumeForPersistentVolumeClaimCall obj]))
              | Inr vol \<Rightarrow>
                  (case GetPersistentVolumeClaimParams K
                          (h @ [GetVolumeForPersistentVolumeClaimCall obj]) obj of
                     Inl err \<Rightarrow>
                       (Some (ErrFailedToGetVolumesParameters (App ctx)
                          (''failed to get params for volume: '' @ obj @ ''. Err: '' @ err)),
                        (result, h @ [GetVolumeForPersistentVolumeClaimCall obj,
                                      GetPersistentVolumeClaimParamsCall obj]))
                   | Inr params \<Rightarrow>
                       (None, (result(vol \<mapsto> params),
                               h @ [GetVolumeForPersistentVolumeClaimCall obj,
                                    GetPersistentVolumeClaimParamsCall obj]))))
         | _ \<Rightarrow> (None, (result, h))))"

definition GetVolumeParameters ::
  "k8sutils \<Rightarrow> Context \<Rightarrow> world \<Rightarrow> ((string \<rightharpoonup> (string \<rightharpoonup> string)) option \<times> error option) \<times> world" where
  "GetVolumeParameters K ctx h =
     (case forEach (Storage (App ctx) (UID ctx)) (volumeParamsOf K ctx) (Map.empty, h) of
        (Some e, (result, h')) \<Rightarrow> ((None, Some e), h')
      | (None, (result, h')) \<Rightarrow> ((Some result, None), h'))"

subsection \<open>InspectVolumes, DeleteVolumes\<close>

definition validateStorage :: "formatter \<Rightarrow> k8sutils \<Rightarrow> Context \<Rightarrow> ResourceObject \<Rightarrow> world \<Rightarrow> error option \<times> world" where
  "validateStorage goSyntax K ctx storage h =
     (case storage of
        StorageClass obj \<Rightarrow>
          (case ValidateStorageClass K h obj of
             Some err \<Rightarrow>
               (Some (ErrFailedToValidateStorage (App ctx)
                  (''Failed to validate StorageClass: '' @ obj @ ''. Err: '' @ err)),
                h @ [ValidateStorageClassCall obj])
           | None \<Rightarrow> (None, h @ [ValidateStorageClassCall obj]))
      | PersistentVolumeClaim obj \<Rightarrow>
          (case ValidatePersistentVolumeClaim K h obj of
             Some err \<Rightarrow>
               (Some (ErrFailedToValidateStorage (App ctx)
                  (''Failed to validate PVC: '' @ obj @ ''. Err: '' @ err)),
                h @ [ValidatePersistentVolumeClaimCall obj])
           | None \<Rightarrow> (None, h @ [ValidatePersistentVolumeClaimCall obj]))
      | _ \<Rightarrow>
          (Some (ErrFailedToValidateStorage (App ctx)
             (''Failed to validate unsupported storage component: '' @ goSyntax storage @ ''.'')),
           h))"

definition InspectVolumes :: "formatter \<Rightarrow> k8sutils \<Rightarrow> Context \<Rightarrow> world \<Rightarrow> error option \<times> world" where
  "InspectVolumes goSyntax K ctx h = forEach (Storage (App ctx) (UID ctx)) (validateStorage goSyntax K ctx) h"

definition destroyStorage :: "formatter \<Rightarrow> k8sutils \<Rightarrow> Context \<Rightarrow> ResourceObject \<Rightarrow> world \<Rightarrow> error option \<times> world" where
  "destroyStorage goSyntax K ctx storage h =
     (case storage of
        StorageClass obj \<Rightarrow>
          (case DeleteStorageClass K h obj of
             Some err \<Rightarrow>
               (Some (ErrFailedToDestroyStorage (App ctx)
                  (''Failed to destroy storage class: '' @ obj @ ''. Err: '' @ err)),
                h @ [DeleteStorageClassCall obj])
           | None \<Rightarrow> (None, h @ [DeleteStorageClassCall obj]))
      | PersistentVolumeClaim obj \<Rightarrow>
          (case DeletePersistentVolumeClaim K h obj of
             Some err \<Rightarrow>
               (Some (ErrFailedToDestroyStorage (App ctx)
                  (''Failed to destroy PVC: '' @ obj @ ''. Err: '' @ err)),
                h @ [DeletePersistentVolumeClaimCall obj])
           | None \<Rightarrow> (None, h @ [DeletePersistentVolumeClaimCall obj]))
      | _ \<Rightarrow>
          (Some (ErrFailedToDestroyStorage (App ctx)
             (''Failed to destroy unsupported storage component: '' @ goSyntax storage @ ''.'')),
           h))"

definition DeleteVolumes :: "formatter \<Rightarrow> k8sutils \<Rightarrow> Context \<Rightarrow> world \<Rightarrow> error option \<times> world" where
  "DeleteVolumes goSyntax K ctx h = forEach (Storage (App ctx) (UID ctx)) (destroyStorage goSyntax K ctx) h"

subsection \<open>Calls and their outcomes\<close>

text \<open>
  The create call \<open>Schedule\<close> issues for an object of the storage list and of the core
  list (none for a kind the loop has no branch for), the calls of one spec, storage first,
  and the calls of a list of specs.
\<close>

fun storageCalls :: "ResourceObject \<Rightarrow> k8s_call list" where
  "storageCalls (StorageClass n) = [CreateStorageClassCall n]"
| "storageCalls (PersistentVolumeClaim n) = [CreatePersistentVolumeClaimCall n]"
| "storageCalls (Deployment n) = []"
| "storageCalls (OtherKind s) = []"

fun coreCalls :: "ResourceObject \<Rightarrow> k8s_call list" where
  "coreCalls (Deployment n) = [CreateDeploymentCall n]"
| "coreCalls (StorageClass n) = []"
| "coreCalls (PersistentVolumeClaim n) = []"
| "coreCalls (OtherKind s) = []"

definition createCalls :: "string \<Rightarrow> AppSpec \<Rightarrow> k8s_call list" where
  "createCalls instanceID spec =
     concat (map storageCalls (Storage spec instanceID)) @
     concat (map coreCalls (Core spec instanceID))"

definition schedulePlan :: "string \<Rightarrow> AppSpec list \<Rightarrow> k8s_call list" where
  "schedulePlan instanceID specs = concat (map (createCalls instanceID) specs)"

text \<open>Whether the cluster answers a call, issued after the history \<open>h\<close>, without an error.\<close>

fun succeeds :: "k8sutils \<Rightarrow> world \<Rightarrow> k8s_call \<Rightarrow> bool" where
  "succeeds K h GetNodesCall = (case GetNodes K h of Inl err \<Rightarrow> False | Inr r \<Rightarrow> True)"
| "succeeds K h (CreateStorageClassCall n) =
     (case CreateStorageClass K h n of Inl err \<Rightarrow> False | Inr r \<Rightarrow> True)"
| "succeeds K h (CreatePersistentVolumeClaimCall n) =
     (case CreatePersistentVolumeClaim K h n of Inl err \<Rightarrow> False | Inr r \<Rightarrow> True)"
| "succeeds K h (CreateDeploymentCall n) =
     (case CreateDeployment K h n of Inl err \<Rightarrow> False | Inr r \<Rightarrow> True)"
| "succeeds K h (ValidateDeployementCall n) = (ValidateDeployement K h n = None)"
| "succeeds K h (DeleteDeploymentCall n) = (DeleteDeployment K h n = None)"
| "succeeds K h (ValidateTerminatedDeploymentCall n) = (ValidateTerminatedDeployment K h n = None)"
| "succeeds K h (GetVolumeForPersistentVolumeClaimCall n) =
     (case GetVolumeForPersistentVolumeClaim K h n of Inl err \<Rightarrow> False | Inr r \<Rightarrow> True)"
| "succeeds K h (GetPersistentVolumeClaimParamsCall n) =
     (case GetPersistentVolumeClaimParams K h n of Inl err \<Rightarrow> False | Inr r \<Rightarrow> True)"
| "succeeds K h (ValidateStorageClassCall n) = (ValidateStorageClass K h n = None)"
| "succeeds K h (ValidatePersistentVolumeClaimCall n) = (ValidatePersistentVolumeClaim K h n = None)"
| "succeeds K h (DeleteStorageClassCall n) = (DeleteStorageClass K h n = None)"
| "succeeds K h (DeletePersistentVolumeClaimCall n) = (DeletePersistentVolumeClaim K h n = None)"

text \<open>Every call of a list, issued in this order after \<open>h\<close>, succeeds.\<close>

fun allSucceed :: "k8sutils \<Rightarrow> world \<Rightarrow> k8s_call list \<Rightarrow> bool" where
  "allSucceed K h [] = True"
| "allSucceed K h (c # cs) = (succeeds K h c \<and> allSucceed K (h @ [c]) cs)"

text \<open>The names of the volume claims of a storage list, in its order.\<close>

fun claimNames :: "ResourceObject list \<Rightarrow> string list" where
  "claimNames [] = []"
| "claimNames (PersistentVolumeClaim n # xs) = n # claimNames xs"
| "claimNames (x # xs) = claimNames xs"

subsection \<open>Example inputs\<close>

text \<open>
  A spec with a claim and a deployment (the "echo" application of the end-to-end
  scenario), one with three deployments, one whose lists hold an object of a kind the
  driver does not know, one that lists a storage class among its Core resources, a
  formatter to stand for \<^verbatim>\<open>%#v\<close> (the theorems hold for every formatter), and a client on
  which every call succeeds except those on the object named \<open>bad\<close>.
\<close>

definition echoSpec :: AppSpec where
  "echoSpec =
     \<lparr> Key = ''echo'',
       Storage = (\<lambda>instanceID. [PersistentVolumeClaim (instanceID @ ''-pvc'')]),
       Core = (\<lambda>instanceID. [Deployment (instanceID @ ''-echo'')]) \<rparr>"

definition trioSpec :: AppSpec where
  "trioSpec =
     \<lparr> Key = ''trio'',
       Storage = (\<lambda>instanceID. [StorageClass ''sc'', PersistentVolumeClaim ''p1'',
                                 PersistentVolumeClaim ''p2'']),
       Core = (\<lambda>instanceID. [Deployment ''d1'', Deployment ''d2'', Deployment ''d3'']) \<rparr>"

definition oddSpec :: AppSpec where
  "oddSpec =
     \<lparr> Key = ''odd'',
       Storage = (\<lambda>instanceID. [OtherKind ''&v1.ConfigMap{}'']),
       Core = (\<lambda>instanceID. [OtherKind ''&v1.ConfigMap{}'']) \<rparr>"

definition strayCoreSpec :: AppSpec where
  "strayCoreSpec =
     \<lparr> Key = ''stray'',
       Storage = (\<lambda>instanceID. [PersistentVolumeClaim ''p'']),
       Core = (\<lambda>instanceID. [Deployment ''d'', StorageClass ''sc'']) \<rparr>"

definition demoSyntax :: formatter where
  "demoSyntax obj =
     (case obj of
        StorageClass n \<Rightarrow> ''&v1beta1.StorageClass{...Name:'' @ n @ ''...}''
      | PersistentVolumeClaim n \<Rightarrow> ''&v1.PersistentVolumeClaim{...Name:'' @ n @ ''...}''
      | Deployment n \<Rightarrow> ''&v1beta1.Deployment{...Name:'' @ n @ ''...}''
      | OtherKind s \<Rightarrow> s)"

definition demoNodes :: "v1_Node list" where
  "demoNodes =
     [\<lparr> NodeName = ''master-0'',
        StatusAddresses =
          [\<lparr> AddressType = ''Hostname'', Address = ''master-0'' \<rparr>,
           \<lparr> AddressType = ''InternalIP'', Address = ''10.0.0.1'' \<rparr>,
           \<lparr> AddressType = ''ExternalIP'', Address = ''34.1.2.3'' \<rparr>] \<rparr>,
      \<lparr> NodeName = ''worker-0'',
        StatusAddresses =
          [\<lparr> AddressType = ''InternalIP'', Address = ''10.0.0.2'' \<rparr>,
           \<lparr> AddressType = ''Hostname'', Address = ''worker-0'' \<rparr>] \<rparr>]"

definition demoClient :: "string \<Rightarrow> k8sutils" where
  "demoClient bad =
     \<lparr> GetNodes = (\<lambda>h. Inr demoNodes),
       IsNodeMaster = (\<lambda>n. NodeName n = ''master-0''),
       CreateStorageClass = (\<lambda>h n. if n = bad then Inl ''boom'' else Inr n),
       CreatePersistentVolumeClaim = (\<lambda>h n. if n = bad then Inl ''boom'' else Inr n),
       CreateDeployment = (\<lambda>h n. if n = bad then Inl ''boom'' else Inr n),
       ValidateDeployement = (\<lambda>h n. if n = bad then Some ''boom'' else None),
       DeleteDeployment = (\<lambda>h n. if n = bad then Some ''boom'' else None),
       ValidateTerminatedDeployment = (\<lambda>h n. if n = bad then Some ''boom'' else None),
       GetVolumeForPersistentVolumeClaim =
         (\<lambda>h n. if n = bad then Inl ''boom'' else Inr (''vol-'' @ n)),
       GetPersistentVolumeClaimParams = (\<lambda>h n. if n = bad then Inl ''boom'' else Inr Map.empty),
       ValidateStorageClass = (\<lambda>h n. if n = bad then Some ''boom'' else None),
       ValidatePersistentVolumeClaim = (\<lambda>h n. if n = bad then Some ''boom'' else None),
       DeleteStorageClass = (\<lambda>h n. if n = bad then Some ''boom'' else None),
       DeletePersistentVolumeClaim = (\<lambda>h n. if n = bad then Some ''boom'' else None) \<rparr>"

definition demoRegistry :: registry where
  "demoRegistry = [(''trio'', trioSpec), (''echo'', echoSpec)]"

definition wideRegistry :: registry where
  "wideRegistry = [(''echo'', echoSpec), (''odd'', oddSpec), (''stray'', strayCoreSpec)]"

definition oddContext :: Context where
  "oddContext = \<lparr>UID = ''run-1'', App = oddSpec\<rparr>"

definition strayContext :: Context where
  "strayContext = \<lparr>UID = ''run-1'', App = strayCoreSpec\<rparr>"

definition downClient :: k8sutils where
  "downClient = (demoClient [])\<lparr> GetNodes := (\<lambda>h. Inl ''connection refused'') \<rparr>"

section \<open>Properties\<close>

subsection \<open>Loops\<close>

lemma forEach_append:
  "forEach (xs @ ys) f s =
     (case forEach xs f s of (Some e, s') \<Rightarrow> (Some e, s') | (None, s') \<Rightarrow> forEach ys f s')"
  by (induction xs arbitrary: s) (auto split: prod.splits option.splits)

lemma forEach_fail_decomp:
  "forEach xs f s = (Some e, s') \<Longrightarrow>
   \<exists>pre x post s1. xs = pre @ x # post \<and> forEach pre f s = (None, s1) \<and> f x s1 = (Some e, s')"
proof (induction xs arbitrary: s)
  case Nil
  then show ?case by simp
next
  case (Cons x xs)
  obtain r s1 where fx: "f x s = (r, s1)" by (cases "f x s")
  show ?case
  proof (cases r)
    case None
    with Cons.prems fx have "forEach xs f s1 = (Some e, s')" by simp
    from Cons.IH [OF this] obtain pre y post s2 where
      "xs = pre @ y # post" "forEach pre f s1 = (None, s2)" "f y s2 = (Some e, s')" by blast
    with fx None have "x # xs = (x # pre) @ y # post \<and> forEach (x # pre) f s = (None, s2) \<and> f y s2 = (Some e, s')"
      by simp
    then show ?thesis by blast
  next
    case (Some e')
    with Cons.prems fx have "x # xs = [] @ x # xs \<and> forEach [] f s = (None, s) \<and> f x s = (Some e, s')"
      by simp
    then show ?thesis by blast
  qed
qed

lemma allSucceed_append:
  "allSucceed K h (a @ b) = (allSucceed K h a \<and> allSucceed K (h @ a) b)"
  by (induction a arbitrary: h) simp_all

lemma forEach_trace:
  assumes "\<And>x s. \<exists>tr. w (snd (f x s)) = w s @ tr \<and> prefix tr (c x) \<and> (fst (f x s) = None \<longrightarrow> tr = c x)"
  shows "\<exists>tr. w (snd (forEach xs f s)) = w s @ tr \<and> prefix tr (concat (map c xs)) \<and>
              (fst (forEach xs f s) = None \<longrightarrow> tr = concat (map c xs))"
proof (induction xs arbitrary: s)
  case Nil
  have "w (snd (forEach [] f s)) = w s @ [] \<and> prefix [] (concat (map c [])) \<and>
              (fst (forEach [] f s) = None \<longrightarrow> [] = concat (map c []))" by simp
  then show ?case by (rule exI)
next
  case (Cons x xs)
  obtain r s1 where fx: "f x s = (r, s1)" by (cases "f x s")
  from assms [of x s] obtain tr1 where
    t0: "w (snd (f x s)) = w s @ tr1 \<and> prefix tr1 (c x) \<and> (fst (f x s) = None \<longrightarrow> tr1 = c x)" ..
  from t0 fx have t1: "w s1 = w s @ tr1" "prefix tr1 (c x)" "r = None \<longrightarrow> tr1 = c x"
    by simp_all
  show ?case
  proof (cases r)
    case None
    from Cons.IH [of s1] obtain tr2 where
      t2': "w (snd (forEach xs f s1)) = w s1 @ tr2 \<and> prefix tr2 (concat (map c xs)) \<and>
          (fst (forEach xs f s1) = None \<longrightarrow> tr2 = concat (map c xs))" ..
    then have t2: "w (snd (forEach xs f s1)) = w s1 @ tr2" "prefix tr2 (concat (map c xs))"
          "fst (forEach xs f s1) = None \<longrightarrow> tr2 = concat (map c xs)" by simp_all
    from None t1 have tr1: "tr1 = c x" by simp
    have fe: "forEach (x # xs) f s = forEach xs f s1" using fx None by simp
    have "w (snd (forEach (x # xs) f s)) = w s @ (c x @ tr2) \<and>
          prefix (c x @ tr2) (concat (map c (x # xs))) \<and>
          (fst (forEach (x # xs) f s) = None \<longrightarrow> c x @ tr2 = concat (map c (x # xs)))"
      unfolding fe using t1(1) t2 tr1 by simp
    then show ?thesis by (rule exI)
  next
    case (Some e)
    have fe: "forEach (x # xs) f s = (Some e, s1)" using fx Some by simp
    have "w (snd (forEach (x # xs) f s)) = w s @ tr1 \<and>
          prefix tr1 (concat (map c (x # xs))) \<and>
          (fst (forEach (x # xs) f s) = None \<longrightarrow> tr1 = concat (map c (x # xs)))"
      unfolding fe using t1 prefix_prefix [of tr1 "c x" "concat (map c xs)"] by simp
    then show ?thesis by (rule exI)
  qed
qed

subsection \<open>Init\<close>

lemma nodeAddrs_foldl:
  "foldl (\<lambda>addrs addr.
            if AddressType addr = NodeExternalIP \<or> AddressType addr = NodeInternalIP
            then addrs @ [Address addr] else addrs) acc as =
   acc @ map Address (filter (\<lambda>a. AddressType a = NodeExternalIP \<or> AddressType a = NodeInternalIP) as)"
  by (induction as arbitrary: acc) simp_all

lemma nodeAddrs_filter:
  "nodeAddrs as =
   map Address (filter (\<lambda>a. AddressType a = NodeExternalIP \<or> AddressType a = NodeInternalIP) as)"
  by (simp add: nodeAddrs_def nodeAddrs_foldl)

lemma Init_foldl:
  "foldl (\<lambda>k n. k\<lparr>nodes := nodes k @ [nodeOf K n]\<rparr>) k items =
   k\<lparr>nodes := nodes k @ map (nodeOf K) items\<rparr>"
  by (induction items arbitrary: k) simp_all

lemma Init_ok:
  "GetNodes K h = Inr items \<Longrightarrow>
   Init K k h = ((None, k\<lparr>nodes := nodes k @ map (nodeOf K) items\<rparr>), h @ [GetNodesCall])"
  by (simp add: Init_def Init_foldl)

text \<open>
  Claim C8. When the listing of the nodes fails, \<open>Init\<close> returns the client's error and
  leaves the driver as it was. When it succeeds, \<open>Init\<close> returns no error and stores one
  Node for each listed node, in the order of the listing, after the nodes the driver
  already holds: the node's name, its addresses, and Master or Worker as
  \<^verbatim>\<open>k8sutils.IsNodeMaster\<close> says.
\<close>

theorem Init_snapshot:
  "(GetNodes K h = Inl err \<longrightarrow> Init K k h = ((Some err, k), h @ [GetNodesCall])) \<and>
   (GetNodes K h = Inr items \<longrightarrow>
      Init K k h =
        ((None,
          k\<lparr>nodes := nodes k @
             map (\<lambda>n. \<lparr> Name = NodeName n,
                        Addresses = nodeAddrs (StatusAddresses n),
                        Type = (if IsNodeMaster K n then NodeTypeMaster else NodeTypeWorker) \<rparr>)
                 items\<rparr>),
         h @ [GetNodesCall]))"
proof (intro conjI impI)
  assume "GetNodes K h = Inl err"
  then show "Init K k h = ((Some err, k), h @ [GetNodesCall])"
    by (simp add: Init_def)
next
  assume ok: "GetNodes K h = Inr items"
  have "map (nodeOf K) items =
        map (\<lambda>n. \<lparr> Name = NodeName n,
                   Addresses = nodeAddrs (StatusAddresses n),
                   Type = (if IsNodeMaster K n then NodeTypeMaster else NodeTypeWorker) \<rparr>) items"
    by (simp add: nodeOf_def)
  with Init_ok [OF ok, of k]
  show "Init K k h =
        ((None,
          k\<lparr>nodes := nodes k @
             map (\<lambda>n. \<lparr> Name = NodeName n,
                        Addresses = nodeAddrs (StatusAddresses n),
                        Type = (if IsNodeMaster K n then NodeTypeMaster else NodeTypeWorker) \<rparr>)
                 items\<rparr>),
         h @ [GetNodesCall])"
    by simp
qed

theorem Init_snapshot_witness:
  "GetNodes downClient [] = Inl ''connection refused'' \<and>
   Init downClient \<lparr>nodes = []\<rparr> [] = ((Some ''connection refused'', \<lparr>nodes = []\<rparr>), [GetNodesCall]) \<and>
   GetNodes (demoClient []) [] = Inr demoNodes \<and>
   Init (demoClient []) \<lparr>nodes = []\<rparr> [] =
     ((None,
       \<lparr>nodes =
          [\<lparr> Name = ''master-0'', Addresses = [''10.0.0.1'', ''34.1.2.3''], Type = NodeTypeMaster \<rparr>,
           \<lparr> Name = ''worker-0'', Addresses = [''10.0.0.2''], Type = NodeTypeWorker \<rparr>]\<rparr>),
      [GetNodesCall])"
proof -
  have a: "GetNodes downClient [] = Inl ''connection refused''"
    by (simp add: downClient_def demoClient_def)
  have b: "GetNodes (demoClient []) [] = Inr demoNodes"
    by (simp add: demoClient_def)
  have c: "IsNodeMaster (demoClient []) = (\<lambda>n. NodeName n = ''master-0'')"
    by (simp add: demoClient_def)
  from Init_snapshot [of downClient "[]" "''connection refused''" "\<lparr>nodes = []\<rparr>" demoNodes] a
  have 1: "Init downClient \<lparr>nodes = []\<rparr> [] = ((Some ''connection refused'', \<lparr>nodes = []\<rparr>), [GetNodesCall])"
    by simp
  from Init_snapshot [of "demoClient []" "[]" "[]" "\<lparr>nodes = []\<rparr>" demoNodes] b
  have 2: "Init (demoClient []) \<lparr>nodes = []\<rparr> [] =
     ((None,
       \<lparr>nodes =
          [\<lparr> Name = ''master-0'', Addresses = [''10.0.0.1'', ''34.1.2.3''], Type = NodeTypeMaster \<rparr>,
           \<lparr> Name = ''worker-0'', Addresses = [''10.0.0.2''], Type = NodeTypeWorker \<rparr>]\<rparr>),
      [GetNodesCall])"
    by (simp add: c demoNodes_def nodeAddrs_def NodeExternalIP_def NodeInternalIP_def)
  from a b 1 2 show ?thesis by simp
qed

text \<open>
  Claim C10. The addresses of the Node stored for a listed node are the addresses of that
  node whose type is \<^verbatim>\<open>ExternalIP\<close> or \<^verbatim>\<open>InternalIP\<close>, in the order the cluster reports
  them; an address of any other type is left out.
\<close>

theorem Init_node_addresses:
  "GetNodes K h = Inr items \<Longrightarrow> i < length items \<Longrightarrow>
   Addresses (nodes (snd (fst (Init K k h))) ! (length (nodes k) + i)) =
     map Address
       (filter (\<lambda>a. AddressType a = NodeExternalIP \<or> AddressType a = NodeInternalIP)
          (StatusAddresses (items ! i)))"
  by (simp add: Init_ok nth_append nodeOf_def nodeAddrs_filter)

theorem Init_node_addresses_witness:
  "GetNodes (demoClient []) [] = Inr demoNodes \<and> (0::nat) < length demoNodes \<and>
   Addresses (nodes (snd (fst (Init (demoClient []) \<lparr>nodes = []\<rparr> []))) ! 0) =
     [''10.0.0.1'', ''34.1.2.3'']"
proof -
  have b: "GetNodes (demoClient []) [] = Inr demoNodes"
    by (simp add: demoClient_def)
  have l: "(0::nat) < length demoNodes"
    by (simp add: demoNodes_def)
  from Init_node_addresses [OF b l, of "\<lparr>nodes = []\<rparr>"]
  have "Addresses (nodes (snd (fst (Init (demoClient []) \<lparr>nodes = []\<rparr> []))) ! 0) =
     [''10.0.0.1'', ''34.1.2.3'']"
    by (simp add: demoNodes_def NodeExternalIP_def NodeInternalIP_def)
  with b l show ?thesis by simp
qed

subsection \<open>WaitForRunning\<close>

lemma validateCore_prefix:
  "allSucceed K h (map ValidateDeployementCall ds) \<Longrightarrow>
   forEach (map Deployment ds) (validateCore goSyntax K ctx) h = (None, h @ map ValidateDeployementCall ds)"
  by (induction ds arbitrary: h) (simp_all add: validateCore_def)

lemma validateCore_unsupported:
  "\<not> coreKind x \<Longrightarrow>
   validateCore goSyntax K ctx x h =
     (Some (ErrFailedToValidateApp (App ctx)
        (''Failed to validate unsupported core component: '' @ goSyntax x @ ''.'')), h)"
  by (cases x) (simp_all add: validateCore_def)

text \<open>
  Claim C5. \<open>WaitForRunning\<close> validates the Core resources of the context's spec in their
  order. While every validation succeeds it goes on; when all have succeeded it returns no
  error. The first failure, a deployment the cluster does not validate or an object that
  is no deployment, ends the call with \<open>FailedToValidateApp\<close> carrying the context's App
  and a cause, and nothing after it is validated: the calls issued are those of the
  deployments before it and, for a deployment, its own.
\<close>

theorem WaitForRunning_first_failure:
  assumes cores: "Core (App ctx) (UID ctx) = map Deployment ds @ rest"
    and ok: "allSucceed K h (map ValidateDeployementCall ds)"
  shows "(rest = [] \<longrightarrow>
            WaitForRunning goSyntax K ctx h = (None, h @ map ValidateDeployementCall ds)) \<and>
         (rest = Deployment d # post \<and>
          ValidateDeployement K (h @ map ValidateDeployementCall ds) d = Some err \<longrightarrow>
            WaitForRunning goSyntax K ctx h =
              (Some (ErrFailedToValidateApp (App ctx)
                 (''Failed to validate Deployment: '' @ d @ ''. Err: '' @ err)),
               h @ map ValidateDeployementCall ds @ [ValidateDeployementCall d])) \<and>
         (rest = x # post \<and> \<not> coreKind x \<longrightarrow>
            WaitForRunning goSyntax K ctx h =
              (Some (ErrFailedToValidateApp (App ctx)
                 (''Failed to validate unsupported core component: '' @ goSyntax x @ ''.'')),
               h @ map ValidateDeployementCall ds))"
proof -
  have run: "WaitForRunning goSyntax K ctx h =
             forEach rest (validateCore goSyntax K ctx) (h @ map ValidateDeployementCall ds)"
    by (simp add: WaitForRunning_def cores forEach_append validateCore_prefix [OF ok])
  show ?thesis
  proof (intro conjI impI)
    assume "rest = []"
    with run show "WaitForRunning goSyntax K ctx h = (None, h @ map ValidateDeployementCall ds)"
      by simp
  next
    assume "rest = Deployment d # post \<and>
            ValidateDeployement K (h @ map ValidateDeployementCall ds) d = Some err"
    with run show "WaitForRunning goSyntax K ctx h =
              (Some (ErrFailedToValidateApp (App ctx)
                 (''Failed to validate Deployment: '' @ d @ ''. Err: '' @ err)),
               h @ map ValidateDeployementCall ds @ [ValidateDeployementCall d])"
      by (simp add: validateCore_def)
  next
    assume "rest = x # post \<and> \<not> coreKind x"
    with run show "WaitForRunning goSyntax K ctx h =
              (Some (ErrFailedToValidateApp (App ctx)
                 (''Failed to validate unsupported core component: '' @ goSyntax x @ ''.'')),
               h @ map ValidateDeployementCall ds)"
      by (simp add: validateCore_unsupported)
  qed
qed

theorem WaitForRunning_first_failure_witness:
  "Core trioSpec ''run-1'' = map Deployment [''d1'', ''d2'', ''d3''] @ [] \<and>
   allSucceed (demoClient []) [] (map ValidateDeployementCall [''d1'', ''d2'', ''d3'']) \<and>
   WaitForRunning demoSyntax (demoClient []) \<lparr>UID = ''run-1'', App = trioSpec\<rparr> [] =
     (None, [ValidateDeployementCall ''d1'', ValidateDeployementCall ''d2'',
             ValidateDeployementCall ''d3'']) \<and>
   Core trioSpec ''run-1'' = map Deployment [''d1''] @ [Deployment ''d2'', Deployment ''d3''] \<and>
   allSucceed (demoClient ''d2'') [] (map ValidateDeployementCall [''d1'']) \<and>
   ValidateDeployement (demoClient ''d2'') ([] @ map ValidateDeployementCall [''d1'']) ''d2'' =
     Some ''boom'' \<and>
   WaitForRunning demoSyntax (demoClient ''d2'') \<lparr>UID = ''run-1'', App = trioSpec\<rparr> [] =
     (Some (ErrFailedToValidateApp trioSpec ''Failed to validate Deployment: d2. Err: boom''),
      [ValidateDeployementCall ''d1'', ValidateDeployementCall ''d2'']) \<and>
   Core oddSpec ''run-1'' = map Deployment [] @ [OtherKind ''&v1.ConfigMap{}''] \<and>
   \<not> coreKind (OtherKind ''&v1.ConfigMap{}'') \<and>
   WaitForRunning demoSyntax (demoClient []) \<lparr>UID = ''run-1'', App = oddSpec\<rparr> [] =
     (Some (ErrFailedToValidateApp oddSpec
        ''Failed to validate unsupported core component: &v1.ConfigMap{}.''), [])"
proof -
  have c1: "Core (App \<lparr>UID = ''run-1'', App = trioSpec\<rparr>) (UID \<lparr>UID = ''run-1'', App = trioSpec\<rparr>) =
            map Deployment [''d1'', ''d2'', ''d3''] @ []"
    by (simp add: trioSpec_def)
  have a1: "allSucceed (demoClient []) [] (map ValidateDeployementCall [''d1'', ''d2'', ''d3''])"
    by (simp add: demoClient_def)
  have c2: "Core (App \<lparr>UID = ''run-1'', App = trioSpec\<rparr>) (UID \<lparr>UID = ''run-1'', App = trioSpec\<rparr>) =
            map Deployment [''d1''] @ [Deployment ''d2'', Deployment ''d3'']"
    by (simp add: trioSpec_def)
  have a2: "allSucceed (demoClient ''d2'') [] (map ValidateDeployementCall [''d1''])"
    by (simp add: demoClient_def)
  have v2: "ValidateDeployement (demoClient ''d2'') ([] @ map ValidateDeployementCall [''d1'']) ''d2'' =
            Some ''boom''"
    by (simp add: demoClient_def)
  have c3: "Core (App \<lparr>UID = ''run-1'', App = oddSpec\<rparr>) (UID \<lparr>UID = ''run-1'', App = oddSpec\<rparr>) =
            map Deployment [] @ [OtherKind ''&v1.ConfigMap{}'']"
    by (simp add: oddSpec_def)
  have a3: "allSucceed (demoClient []) [] (map ValidateDeployementCall [])"
    by simp
  from WaitForRunning_first_failure [OF c1 a1]
  have r1: "WaitForRunning demoSyntax (demoClient []) \<lparr>UID = ''run-1'', App = trioSpec\<rparr> [] =
     (None, [ValidateDeployementCall ''d1'', ValidateDeployementCall ''d2'',
             ValidateDeployementCall ''d3''])"
    by simp
  from WaitForRunning_first_failure [OF c2 a2, of demoSyntax "''d2''" "[Deployment ''d3'']" "''boom''"] v2
  have r2: "WaitForRunning demoSyntax (demoClient ''d2'') \<lparr>UID = ''run-1'', App = trioSpec\<rparr> [] =
     (Some (ErrFailedToValidateApp trioSpec ''Failed to validate Deployment: d2. Err: boom''),
      [ValidateDeployementCall ''d1'', ValidateDeployementCall ''d2''])"
    by simp
  from WaitForRunning_first_failure [OF c3 a3, of demoSyntax _ "[]" _ "OtherKind ''&v1.ConfigMap{}''"]
  have r3: "WaitForRunning demoSyntax (demoClient []) \<lparr>UID = ''run-1'', App = oddSpec\<rparr> [] =
     (Some (ErrFailedToValidateApp oddSpec
        ''Failed to validate unsupported core component: &v1.ConfigMap{}.''), [])"
    by (simp add: demoSyntax_def)
  from c1 a1 r1 c2 a2 v2 r2 c3 r3 show ?thesis by simp
qed

subsection \<open>Destroy\<close>

lemma destroyCore_prefix:
  "allSucceed K h (map DeleteDeploymentCall ds) \<Longrightarrow>
   forEach (map Deployment ds) (destroyCore goSyntax K ctx) h = (None, h @ map DeleteDeploymentCall ds)"
  by (induction ds arbitrary: h) (simp_all add: destroyCore_def)

lemma destroyCore_unsupported:
  "\<not> coreKind x \<Longrightarrow>
   destroyCore goSyntax K ctx x h =
     (Some (ErrFailedToDestroyApp (App ctx)
        (''Failed to destroy unsupported core component: '' @ goSyntax x @ ''.'')), h)"
  by (cases x) (simp_all add: destroyCore_def)

text \<open>
  Claim C6. \<open>Destroy\<close> tears down the Core resources of the context's spec in their
  order. The first failure, a deployment the cluster does not delete or an object that is
  no deployment, ends the call with \<open>FailedToDestroyApp\<close> carrying the context's App, and
  no further call is issued: the deployments after it are not deleted, the failing delete
  is not tried again, and nothing that was deleted is created again.
\<close>

theorem Destroy_first_failure:
  assumes cores: "Core (App ctx) (UID ctx) = map Deployment ds @ rest"
    and ok: "allSucceed K h (map DeleteDeploymentCall ds)"
  shows "(rest = [] \<longrightarrow>
            Destroy goSyntax K ctx h = (None, h @ map DeleteDeploymentCall ds)) \<and>
         (rest = Deployment d # post \<and>
          DeleteDeployment K (h @ map DeleteDeploymentCall ds) d = Some err \<longrightarrow>
            Destroy goSyntax K ctx h =
              (Some (ErrFailedToDestroyApp (App ctx)
                 (''Failed to destroy Deployment: '' @ d @ ''. Err: '' @ err)),
               h @ map DeleteDeploymentCall ds @ [DeleteDeploymentCall d])) \<and>
         (rest = x # post \<and> \<not> coreKind x \<longrightarrow>
            Destroy goSyntax K ctx h =
              (Some (ErrFailedToDestroyApp (App ctx)
                 (''Failed to destroy unsupported core component: '' @ goSyntax x @ ''.'')),
               h @ map DeleteDeploymentCall ds))"
proof -
  have run: "Destroy goSyntax K ctx h =
             forEach rest (destroyCore goSyntax K ctx) (h @ map DeleteDeploymentCall ds)"
    by (simp add: Destroy_def cores forEach_append destroyCore_prefix [OF ok])
  show ?thesis
  proof (intro conjI impI)
    assume "rest = []"
    with run show "Destroy goSyntax K ctx h = (None, h @ map DeleteDeploymentCall ds)"
      by simp
  next
    assume "rest = Deployment d # post \<and>
            DeleteDeployment K (h @ map DeleteDeploymentCall ds) d = Some err"
    with run show "Destroy goSyntax K ctx h =
              (Some (ErrFailedToDestroyApp (App ctx)
                 (''Failed to destroy Deployment: '' @ d @ ''. Err: '' @ err)),
               h @ map DeleteDeploymentCall ds @ [DeleteDeploymentCall d])"
      by (simp add: destroyCore_def)
  next
    assume "rest = x # post \<and> \<not> coreKind x"
    with run show "Destroy goSyntax K ctx h =
              (Some (ErrFailedToDestroyApp (App ctx)
                 (''Failed to destroy unsupported core component: '' @ goSyntax x @ ''.'')),
               h @ map DeleteDeploymentCall ds)"
      by (simp add: destroyCore_unsupported)
  qed
qed

theorem Destroy_first_failure_witness:
  "Core trioSpec ''run-1'' = map Deployment [''d1'', ''d2'', ''d3''] @ [] \<and>
   allSucceed (demoClient []) [] (map DeleteDeploymentCall [''d1'', ''d2'', ''d3'']) \<and>
   Destroy demoSyntax (demoClient []) \<lparr>UID = ''run-1'', App = trioSpec\<rparr> [] =
     (None, [DeleteDeploymentCall ''d1'', DeleteDeploymentCall ''d2'',
             DeleteDeploymentCall ''d3'']) \<and>
   Core trioSpec ''run-1'' = map Deployment [''d1''] @ [Deployment ''d2'', Deployment ''d3''] \<and>
   allSucceed (demoClient ''d2'') [] (map DeleteDeploymentCall [''d1'']) \<and>
   DeleteDeployment (demoClient ''d2'') ([] @ map DeleteDeploymentCall [''d1'']) ''d2'' =
     Some ''boom'' \<and>
   Destroy demoSyntax (demoClient ''d2'') \<lparr>UID = ''run-1'', App = trioSpec\<rparr> [] =
     (Some (ErrFailedToDestroyApp trioSpec ''Failed to destroy Deployment: d2. Err: boom''),
      [DeleteDeploymentCall ''d1'', DeleteDeploymentCall ''d2'']) \<and>
   Core oddSpec ''run-1'' = map Deployment [] @ [OtherKind ''&v1.ConfigMap{}''] \<and>
   \<not> coreKind (OtherKind ''&v1.ConfigMap{}'') \<and>
   Destroy demoSyntax (demoClient []) \<lparr>UID = ''run-1'', App = oddSpec\<rparr> [] =
     (Some (ErrFailedToDestroyApp oddSpec
        ''Failed to destroy unsupported core component: &v1.ConfigMap{}.''), [])"
proof -
  have c1: "Core (App \<lparr>UID = ''run-1'', App = trioSpec\<rparr>) (UID \<lparr>UID = ''run-1'', App = trioSpec\<rparr>) =
            map Deployment [''d1'', ''d2'', ''d3''] @ []"
    by (simp add: trioSpec_def)
  have a1: "allSucceed (demoClient []) [] (map DeleteDeploymentCall [''d1'', ''d2'', ''d3''])"
    by (simp add: demoClient_def)
  have c2: "Core (App \<lparr>UID = ''run-1'', App = trioSpec\<rparr>) (UID \<lparr>UID = ''run-1'', App = trioSpec\<rparr>) =
            map Deployment [''d1''] @ [Deployment ''d2'', Deployment ''d3'']"
    by (simp add: trioSpec_def)
  have a2: "allSucceed (demoClient ''d2'') [] (map DeleteDeploymentCall [''d1''])"
    by (simp add: demoClient_def)
  have v2: "DeleteDeployment (demoClient ''d2'') ([] @ map DeleteDeploymentCall [''d1'']) ''d2'' =
            Some ''boom''"
    by (simp add: demoClient_def)
  have c3: "Core (App \<lparr>UID = ''run-1'', App = oddSpec\<rparr>) (UID \<lparr>UID = ''run-1'', App = oddSpec\<rparr>) =
            map Deployment [] @ [OtherKind ''&v1.ConfigMap{}'']"
    by (simp add: oddSpec_def)
  have a3: "allSucceed (demoClient []) [] (map DeleteDeploymentCall [])"
    by simp
  from Destroy_first_failure [OF c1 a1]
  have r1: "Destroy demoSyntax (demoClient []) \<lparr>UID = ''run-1'', App = trioSpec\<rparr> [] =
     (None, [DeleteDeploymentCall ''d1'', DeleteDeploymentCall ''d2'',
             DeleteDeploymentCall ''d3''])"
    by simp
  from Destroy_first_failure [OF c2 a2, of demoSyntax "''d2''" "[Deployment ''d3'']" "''boom''"] v2
  have r2: "Destroy demoSyntax (demoClient ''d2'') \<lparr>UID = ''run-1'', App = trioSpec\<rparr> [] =
     (Some (ErrFailedToDestroyApp trioSpec ''Failed to destroy Deployment: d2. Err: boom''),
      [DeleteDeploymentCall ''d1'', DeleteDeploymentCall ''d2''])"
    by simp
  from Destroy_first_failure [OF c3 a3, of demoSyntax _ "[]" _ "OtherKind ''&v1.ConfigMap{}''"]
  have r3: "Destroy demoSyntax (demoClient []) \<lparr>UID = ''run-1'', App = oddSpec\<rparr> [] =
     (Some (ErrFailedToDestroyApp oddSpec
        ''Failed to destroy unsupported core component: &v1.ConfigMap{}.''), [])"
    by (simp add: demoSyntax_def)
  from c1 a1 r1 c2 a2 v2 r2 c3 r3 show ?thesis by simp
qed

subsection \<open>GetVolumes\<close>

lemma volumeOf_other:
  "\<not> claimKind x \<Longrightarrow> volumeOf K ctx x st = (None, st)"
  by (cases x; cases st) (simp_all add: volumeOf_def)

lemma volumeOf_skips:
  "forEach objs (volumeOf K ctx) st =
   forEach (map PersistentVolumeClaim (claimNames objs)) (volumeOf K ctx) st"
proof (induction objs arbitrary: st)
  case Nil
  show ?case by simp
next
  case (Cons x xs)
  show ?case
  proof (cases "claimKind x")
    case True
    then obtain n where "x = PersistentVolumeClaim n" by (cases x) simp_all
    then show ?thesis
      by (simp add: Cons.IH split: prod.splits option.splits)
  next
    case False
    then have "claimNames (x # xs) = claimNames xs" by (cases x) simp_all
    with False show ?thesis by (simp add: volumeOf_other Cons.IH)
  qed
qed

lemma volumeOf_claim:
  "volumeOf K ctx (PersistentVolumeClaim obj) (volumes, h) =
     (case GetVolumeForPersistentVolumeClaim K h obj of
        Inl err \<Rightarrow>
          (Some (ErrFailedToGetVolumesForApp (App ctx)
             (''Failed to get volume for PVC: '' @ obj @ ''. Err: '' @ err)),
           (volumes, h @ [GetVolumeForPersistentVolumeClaimCall obj]))
      | Inr vol \<Rightarrow>
          (None, (volumes @ [vol], h @ [GetVolumeForPersistentVolumeClaimCall obj])))"
  by (simp add: volumeOf_def)

lemma volumeOf_prefix:
  "length vs = length ps \<Longrightarrow>
   \<forall>i<length ps.
      GetVolumeForPersistentVolumeClaim K
        (h @ map GetVolumeForPersistentVolumeClaimCall (take i ps)) (ps ! i) = Inr (vs ! i) \<Longrightarrow>
   forEach (map PersistentVolumeClaim ps) (volumeOf K ctx) (volumes, h) =
     (None, (volumes @ vs, h @ map GetVolumeForPersistentVolumeClaimCall ps))"
proof (induction ps arbitrary: vs volumes h)
  case Nil
  then show ?case by simp
next
  case (Cons p ps)
  from Cons.prems(1) obtain v vs' where vs: "vs = v # vs'" "length vs' = length ps"
    by (cases vs) simp_all
  from Cons.prems(2) [rule_format, of 0] vs
  have first: "GetVolumeForPersistentVolumeClaim K h p = Inr v" by simp
  have later: "\<forall>i<length ps.
      GetVolumeForPersistentVolumeClaim K
        ((h @ [GetVolumeForPersistentVolumeClaimCall p]) @
           map GetVolumeForPersistentVolumeClaimCall (take i ps)) (ps ! i) = Inr (vs' ! i)"
  proof (intro allI impI)
    fix i assume "i < length ps"
    with Cons.prems(2) [rule_format, of "Suc i"] vs
    show "GetVolumeForPersistentVolumeClaim K
        ((h @ [GetVolumeForPersistentVolumeClaimCall p]) @
           map GetVolumeForPersistentVolumeClaimCall (take i ps)) (ps ! i) = Inr (vs' ! i)"
      by simp
  qed
  from Cons.IH [OF vs(2) later, of "volumes @ [v]"] first vs
  show ?case by (simp add: volumeOf_claim)
qed

text \<open>
  Claim C7. \<open>GetVolumes\<close> asks the cluster for the volume of each volume claim of the
  context's Storage list, in the order of the list, and passes over the other objects.
  When every lookup succeeds it returns the volumes in that order and no error. The first
  lookup that fails ends the call with \<open>FailedToGetVolumesForApp\<close> carrying the context's
  App; the volumes found so far are not returned (the list is nil) and no later claim is
  looked up.
\<close>

theorem GetVolumes_ordered_or_nothing:
  assumes claims: "claimNames (Storage (App ctx) (UID ctx)) = ps @ rest"
    and len: "length vs = length ps"
    and ok: "\<forall>i<length ps.
               GetVolumeForPersistentVolumeClaim K
                 (h @ map GetVolumeForPersistentVolumeClaimCall (take i ps)) (ps ! i) = Inr (vs ! i)"
  shows "(rest = [] \<longrightarrow>
            GetVolumes K ctx h =
              ((vs, None), h @ map GetVolumeForPersistentVolumeClaimCall ps)) \<and>
         (rest = p # post \<and>
          GetVolumeForPersistentVolumeClaim K
            (h @ map GetVolumeForPersistentVolumeClaimCall ps) p = Inl err \<longrightarrow>
            GetVolumes K ctx h =
              (([], Some (ErrFailedToGetVolumesForApp (App ctx)
                    (''Failed to get volume for PVC: '' @ p @ ''. Err: '' @ err))),
               h @ map GetVolumeForPersistentVolumeClaimCall ps @
                 [GetVolumeForPersistentVolumeClaimCall p]))"
proof -
  have loop: "forEach (Storage (App ctx) (UID ctx)) (volumeOf K ctx) ([], h) =
              forEach (map PersistentVolumeClaim rest) (volumeOf K ctx)
                (vs, h @ map GetVolumeForPersistentVolumeClaimCall ps)"
    using volumeOf_prefix [OF len ok, of ctx "[]"]
    by (simp add: volumeOf_skips [of "Storage (App ctx) (UID ctx)"] claims forEach_append)
  show ?thesis
  proof (intro conjI impI)
    assume "rest = []"
    then show "GetVolumes K ctx h =
              ((vs, None), h @ map GetVolumeForPersistentVolumeClaimCall ps)"
      by (simp add: GetVolumes_def loop)
  next
    assume "rest = p # post \<and>
            GetVolumeForPersistentVolumeClaim K
              (h @ map GetVolumeForPersistentVolumeClaimCall ps) p = Inl err"
    then show "GetVolumes K ctx h =
              (([], Some (ErrFailedToGetVolumesForApp (App ctx)
                    (''Failed to get volume for PVC: '' @ p @ ''. Err: '' @ err))),
               h @ map GetVolumeForPersistentVolumeClaimCall ps @
                 [GetVolumeForPersistentVolumeClaimCall p])"
      by (simp add: GetVolumes_def loop volumeOf_claim)
  qed
qed

theorem GetVolumes_ordered_or_nothing_witness:
  "claimNames (Storage trioSpec ''run-1'') = [''p1'', ''p2''] @ [] \<and>
   GetVolumes (demoClient []) \<lparr>UID = ''run-1'', App = trioSpec\<rparr> [] =
     (([''vol-p1'', ''vol-p2''], None),
      [GetVolumeForPersistentVolumeClaimCall ''p1'', GetVolumeForPersistentVolumeClaimCall ''p2'']) \<and>
   claimNames (Storage trioSpec ''run-1'') = [''p1''] @ [''p2''] \<and>
   GetVolumeForPersistentVolumeClaim (demoClient ''p2'')
     ([] @ map GetVolumeForPersistentVolumeClaimCall [''p1'']) ''p2'' = Inl ''boom'' \<and>
   GetVolumes (demoClient ''p2'') \<lparr>UID = ''run-1'', App = trioSpec\<rparr> [] =
     (([], Some (ErrFailedToGetVolumesForApp trioSpec
                   ''Failed to get volume for PVC: p2. Err: boom'')),
      [GetVolumeForPersistentVolumeClaimCall ''p1'', GetVolumeForPersistentVolumeClaimCall ''p2''])"
proof -
  let ?ctx = "\<lparr>UID = ''run-1'', App = trioSpec\<rparr>"
  have c1: "claimNames (Storage (App ?ctx) (UID ?ctx)) = [''p1'', ''p2''] @ []"
    by (simp add: trioSpec_def)
  have l1: "length [''vol-p1'', ''vol-p2''] = length [''p1'', ''p2'']"
    by simp
  have o1: "\<forall>i<length [''p1'', ''p2''].
              GetVolumeForPersistentVolumeClaim (demoClient [])
                ([] @ map GetVolumeForPersistentVolumeClaimCall (take i [''p1'', ''p2'']))
                ([''p1'', ''p2''] ! i) = Inr ([''vol-p1'', ''vol-p2''] ! i)"
    by (simp add: demoClient_def All_less_Suc)
  have c2: "claimNames (Storage (App ?ctx) (UID ?ctx)) = [''p1''] @ [''p2'']"
    by (simp add: trioSpec_def)
  have l2: "length [''vol-p1''] = length [''p1'']"
    by simp
  have o2: "\<forall>i<length [''p1''].
              GetVolumeForPersistentVolumeClaim (demoClient ''p2'')
                ([] @ map GetVolumeForPersistentVolumeClaimCall (take i [''p1'']))
                ([''p1''] ! i) = Inr ([''vol-p1''] ! i)"
    by (simp add: demoClient_def)
  have f2: "GetVolumeForPersistentVolumeClaim (demoClient ''p2'')
     ([] @ map GetVolumeForPersistentVolumeClaimCall [''p1'']) ''p2'' = Inl ''boom''"
    by (simp add: demoClient_def)
  from GetVolumes_ordered_or_nothing [OF c1 l1 o1]
  have r1: "GetVolumes (demoClient []) ?ctx [] =
     (([''vol-p1'', ''vol-p2''], None),
      [GetVolumeForPersistentVolumeClaimCall ''p1'', GetVolumeForPersistentVolumeClaimCall ''p2''])"
    by simp
  from GetVolumes_ordered_or_nothing [OF c2 l2 o2, of "''p2''" "[]" "''boom''"] f2
  have r2: "GetVolumes (demoClient ''p2'') ?ctx [] =
     (([], Some (ErrFailedToGetVolumesForApp trioSpec
                   ''Failed to get volume for PVC: p2. Err: boom'')),
      [GetVolumeForPersistentVolumeClaimCall ''p1'', GetVolumeForPersistentVolumeClaimCall ''p2''])"
    by simp
  from c1 c2 f2 r1 r2 show ?thesis by simp
qed

subsection \<open>Schedule\<close>

lemma createStorage_trace:
  "\<exists>tr. snd (createStorage goSyntax K spec x h) = h @ tr \<and> prefix tr (storageCalls x) \<and>
         (fst (createStorage goSyntax K spec x h) = None \<longrightarrow> tr = storageCalls x)"
proof (cases x)
  case (StorageClass n)
  have "snd (createStorage goSyntax K spec x h) = h @ storageCalls x \<and>
        prefix (storageCalls x) (storageCalls x) \<and>
        (fst (createStorage goSyntax K spec x h) = None \<longrightarrow> storageCalls x = storageCalls x)"
    by (simp add: StorageClass createStorage_def split: sum.splits)
  then show ?thesis by (rule exI)
next
  case (PersistentVolumeClaim n)
  have "snd (createStorage goSyntax K spec x h) = h @ storageCalls x \<and>
        prefix (storageCalls x) (storageCalls x) \<and>
        (fst (createStorage goSyntax K spec x h) = None \<longrightarrow> storageCalls x = storageCalls x)"
    by (simp add: PersistentVolumeClaim createStorage_def split: sum.splits)
  then show ?thesis by (rule exI)
next
  case (Deployment n)
  have "snd (createStorage goSyntax K spec x h) = h @ [] \<and> prefix [] (storageCalls x) \<and>
        (fst (createStorage goSyntax K spec x h) = None \<longrightarrow> [] = storageCalls x)"
    by (simp add: Deployment createStorage_def)
  then show ?thesis by (rule exI)
next
  case (OtherKind s)
  have "snd (createStorage goSyntax K spec x h) = h @ [] \<and> prefix [] (storageCalls x) \<and>
        (fst (createStorage goSyntax K spec x h) = None \<longrightarrow> [] = storageCalls x)"
    by (simp add: OtherKind createStorage_def)
  then show ?thesis by (rule exI)
qed

lemma createCore_trace:
  "\<exists>tr. snd (createCore goSyntax K spec x h) = h @ tr \<and> prefix tr (coreCalls x) \<and>
         (fst (createCore goSyntax K spec x h) = None \<longrightarrow> tr = coreCalls x)"
proof (cases "coreKind x")
  case True
  then obtain n where x: "x = Deployment n" by (cases x) simp_all
  have "snd (createCore goSyntax K spec x h) = h @ coreCalls x \<and> prefix (coreCalls x) (coreCalls x) \<and>
        (fst (createCore goSyntax K spec x h) = None \<longrightarrow> coreCalls x = coreCalls x)"
    by (simp add: x createCore_def split: sum.splits)
  then show ?thesis by (rule exI)
next
  case False
  then have "snd (createCore goSyntax K spec x h) = h @ [] \<and> prefix [] (coreCalls x) \<and>
        (fst (createCore goSyntax K spec x h) = None \<longrightarrow> [] = coreCalls x)"
    by (cases x) (simp_all add: createCore_def)
  then show ?thesis by (rule exI)
qed

lemma createStorage_error:
  "createStorage goSyntax K spec x h = (Some e, h') \<Longrightarrow> \<exists>cause. e = ErrFailedToScheduleApp spec cause"
  by (cases x) (auto simp: createStorage_def split: sum.splits)

lemma createCore_error:
  "createCore goSyntax K spec x h = (Some e, h') \<Longrightarrow> \<exists>cause. e = ErrFailedToScheduleApp spec cause"
  by (cases x) (auto simp: createCore_def split: sum.splits)

lemma storage_loop_error:
  assumes "forEach objs (createStorage goSyntax K spec) h = (Some e, h')"
  shows "\<exists>cause. e = ErrFailedToScheduleApp spec cause"
proof -
  from forEach_fail_decomp [OF assms] obtain pre x post s1 where
    "createStorage goSyntax K spec x s1 = (Some e, h')" by blast
  then show ?thesis by (rule createStorage_error)
qed

lemma core_loop_error:
  assumes "forEach objs (createCore goSyntax K spec) h = (Some e, h')"
  shows "\<exists>cause. e = ErrFailedToScheduleApp spec cause"
proof -
  from forEach_fail_decomp [OF assms] obtain pre x post s1 where
    "createCore goSyntax K spec x s1 = (Some e, h')" by blast
  then show ?thesis by (rule createCore_error)
qed

lemma storage_loop_trace:
  "\<exists>tr. snd (forEach objs (createStorage goSyntax K spec) h) = h @ tr \<and>
         prefix tr (concat (map storageCalls objs)) \<and>
         (fst (forEach objs (createStorage goSyntax K spec) h) = None \<longrightarrow> tr = concat (map storageCalls objs))"
  using forEach_trace [of "\<lambda>h. h" "createStorage goSyntax K spec" storageCalls objs h, OF createStorage_trace]
  by simp

lemma core_loop_trace:
  "\<exists>tr. snd (forEach objs (createCore goSyntax K spec) h) = h @ tr \<and>
         prefix tr (concat (map coreCalls objs)) \<and>
         (fst (forEach objs (createCore goSyntax K spec) h) = None \<longrightarrow> tr = concat (map coreCalls objs))"
  using forEach_trace [of "\<lambda>h. h" "createCore goSyntax K spec" coreCalls objs h, OF createCore_trace]
  by simp

lemma scheduleSpec_cases:
  "(\<exists>e cause tr. scheduleSpec goSyntax K instanceID spec (contexts, h) = (Some e, (contexts, h @ tr)) \<and>
       e = ErrFailedToScheduleApp spec cause \<and> prefix tr (createCalls instanceID spec)) \<or>
   scheduleSpec goSyntax K instanceID spec (contexts, h) =
     (None, (contexts @ [\<lparr>UID = instanceID, App = spec\<rparr>], h @ createCalls instanceID spec))"
proof -
  obtain r1 h1 where s: "forEach (Storage spec instanceID) (createStorage goSyntax K spec) h = (r1, h1)"
    by (cases "forEach (Storage spec instanceID) (createStorage goSyntax K spec) h")
  from storage_loop_trace [of "Storage spec instanceID" goSyntax K spec h] obtain tr1 where
    t1': "snd (forEach (Storage spec instanceID) (createStorage goSyntax K spec) h) = h @ tr1 \<and>
         prefix tr1 (concat (map storageCalls (Storage spec instanceID))) \<and>
         (fst (forEach (Storage spec instanceID) (createStorage goSyntax K spec) h) = None \<longrightarrow>
            tr1 = concat (map storageCalls (Storage spec instanceID)))" ..
  with s have t1: "h1 = h @ tr1" "prefix tr1 (concat (map storageCalls (Storage spec instanceID)))"
    "r1 = None \<longrightarrow> tr1 = concat (map storageCalls (Storage spec instanceID))"
    by simp_all
  show ?thesis
  proof (cases r1)
    case (Some e)
    from storage_loop_error [of "Storage spec instanceID" goSyntax K spec h e h1] s Some
    obtain cause where c: "e = ErrFailedToScheduleApp spec cause" by auto
    have "scheduleSpec goSyntax K instanceID spec (contexts, h) = (Some e, (contexts, h @ tr1)) \<and>
          e = ErrFailedToScheduleApp spec cause \<and> prefix tr1 (createCalls instanceID spec)"
      using s Some t1 c
        prefix_prefix [of tr1 "concat (map storageCalls (Storage spec instanceID))"
                          "concat (map coreCalls (Core spec instanceID))"]
      by (simp add: scheduleSpec_def createCalls_def)
    then show ?thesis by blast
  next
    case None
    with t1 have tr1: "tr1 = concat (map storageCalls (Storage spec instanceID))" by simp
    obtain r2 h2 where c: "forEach (Core spec instanceID) (createCore goSyntax K spec) h1 = (r2, h2)"
      by (cases "forEach (Core spec instanceID) (createCore goSyntax K spec) h1")
    from core_loop_trace [of "Core spec instanceID" goSyntax K spec h1] obtain tr2 where
      t2': "snd (forEach (Core spec instanceID) (createCore goSyntax K spec) h1) = h1 @ tr2 \<and>
           prefix tr2 (concat (map coreCalls (Core spec instanceID))) \<and>
           (fst (forEach (Core spec instanceID) (createCore goSyntax K spec) h1) = None \<longrightarrow>
              tr2 = concat (map coreCalls (Core spec instanceID)))" ..
    with c have t2: "h2 = h1 @ tr2" "prefix tr2 (concat (map coreCalls (Core spec instanceID)))"
      "r2 = None \<longrightarrow> tr2 = concat (map coreCalls (Core spec instanceID))"
      by simp_all
    show ?thesis
    proof (cases r2)
      case (Some e)
      from core_loop_error [of "Core spec instanceID" goSyntax K spec h1 e h2] c Some
      obtain cause where ca: "e = ErrFailedToScheduleApp spec cause" by auto
      have "scheduleSpec goSyntax K instanceID spec (contexts, h) = (Some e, (contexts, h @ (tr1 @ tr2))) \<and>
            e = ErrFailedToScheduleApp spec cause \<and> prefix (tr1 @ tr2) (createCalls instanceID spec)"
        using s \<open>r1 = None\<close> c Some t1(1) t2(1,2) tr1 ca
        by (simp add: scheduleSpec_def createCalls_def)
      then show ?thesis by blast
    next
      case None
      with t2 have "tr2 = concat (map coreCalls (Core spec instanceID))" by simp
      with s \<open>r1 = None\<close> c None t1(1) t2(1) tr1
      have "scheduleSpec goSyntax K instanceID spec (contexts, h) =
            (None, (contexts @ [\<lparr>UID = instanceID, App = spec\<rparr>], h @ createCalls instanceID spec))"
        by (simp add: scheduleSpec_def createCalls_def)
      then show ?thesis by blast
    qed
  qed
qed


lemma scheduleSpec_trace:
  "\<exists>tr. snd (snd (scheduleSpec goSyntax K instanceID spec st)) = snd st @ tr \<and>
         prefix tr (createCalls instanceID spec) \<and>
         (fst (scheduleSpec goSyntax K instanceID spec st) = None \<longrightarrow> tr = createCalls instanceID spec)"
proof -
  obtain contexts h where st: "st = (contexts, h)" by (cases st)
  from scheduleSpec_cases [of goSyntax K instanceID spec contexts h]
  show ?thesis
  proof
    assume "\<exists>e cause tr. scheduleSpec goSyntax K instanceID spec (contexts, h) = (Some e, (contexts, h @ tr)) \<and>
       e = ErrFailedToScheduleApp spec cause \<and> prefix tr (createCalls instanceID spec)"
    then obtain e tr where
      "scheduleSpec goSyntax K instanceID spec (contexts, h) = (Some e, (contexts, h @ tr))"
      "prefix tr (createCalls instanceID spec)" by blast
    then have "snd (snd (scheduleSpec goSyntax K instanceID spec st)) = snd st @ tr \<and>
         prefix tr (createCalls instanceID spec) \<and>
         (fst (scheduleSpec goSyntax K instanceID spec st) = None \<longrightarrow> tr = createCalls instanceID spec)"
      by (simp add: st)
    then show ?thesis by (rule exI)
  next
    assume "scheduleSpec goSyntax K instanceID spec (contexts, h) =
     (None, (contexts @ [\<lparr>UID = instanceID, App = spec\<rparr>], h @ createCalls instanceID spec))"
    then have "snd (snd (scheduleSpec goSyntax K instanceID spec st)) = snd st @ createCalls instanceID spec \<and>
         prefix (createCalls instanceID spec) (createCalls instanceID spec) \<and>
         (fst (scheduleSpec goSyntax K instanceID spec st) = None \<longrightarrow>
            createCalls instanceID spec = createCalls instanceID spec)"
      by (simp add: st)
    then show ?thesis by (rule exI)
  qed
qed

lemma specs_loop_trace:
  "\<exists>tr. snd (snd (forEach specs (scheduleSpec goSyntax K instanceID) st)) = snd st @ tr \<and>
         prefix tr (schedulePlan instanceID specs) \<and>
         (fst (forEach specs (scheduleSpec goSyntax K instanceID) st) = None \<longrightarrow>
            tr = schedulePlan instanceID specs)"
  unfolding schedulePlan_def
  by (rule forEach_trace [of "\<lambda>st. snd st" "scheduleSpec goSyntax K instanceID" "createCalls instanceID"
                            specs st, OF scheduleSpec_trace])

lemma Schedule_resolved:
  "resolveSpecs F options = (None, specs) \<Longrightarrow>
   Schedule goSyntax F K instanceID options h =
     (case forEach specs (scheduleSpec goSyntax K instanceID) ([], h) of
        (Some e, (contexts, h')) \<Rightarrow> (([], Some e), h')
      | (None, (contexts, h')) \<Rightarrow> ((contexts, None), h'))"
  by (simp add: Schedule_def)

subsection \<open>The example inputs, evaluated\<close>

lemma demoClient_simps:
  "GetNodes (demoClient bad) h = Inr demoNodes"
  "CreateStorageClass (demoClient bad) h n = (if n = bad then Inl ''boom'' else Inr n)"
  "CreatePersistentVolumeClaim (demoClient bad) h n = (if n = bad then Inl ''boom'' else Inr n)"
  "CreateDeployment (demoClient bad) h n = (if n = bad then Inl ''boom'' else Inr n)"
  "ValidateDeployement (demoClient bad) h n = (if n = bad then Some ''boom'' else None)"
  "DeleteDeployment (demoClient bad) h n = (if n = bad then Some ''boom'' else None)"
  "ValidateTerminatedDeployment (demoClient bad) h n = (if n = bad then Some ''boom'' else None)"
  "GetVolumeForPersistentVolumeClaim (demoClient bad) h n =
     (if n = bad then Inl ''boom'' else Inr (''vol-'' @ n))"
  "GetPersistentVolumeClaimParams (demoClient bad) h n =
     (if n = bad then Inl ''boom'' else Inr Map.empty)"
  "ValidateStorageClass (demoClient bad) h n = (if n = bad then Some ''boom'' else None)"
  "ValidatePersistentVolumeClaim (demoClient bad) h n = (if n = bad then Some ''boom'' else None)"
  "DeleteStorageClass (demoClient bad) h n = (if n = bad then Some ''boom'' else None)"
  "DeletePersistentVolumeClaim (demoClient bad) h n = (if n = bad then Some ''boom'' else None)"
  by (simp_all add: demoClient_def)

lemma demoSpec_simps:
  "Storage trioSpec i = [StorageClass ''sc'', PersistentVolumeClaim ''p1'', PersistentVolumeClaim ''p2'']"
  "Core trioSpec i = [Deployment ''d1'', Deployment ''d2'', Deployment ''d3'']"
  "Storage echoSpec i = [PersistentVolumeClaim (i @ ''-pvc'')]"
  "Core echoSpec i = [Deployment (i @ ''-echo'')]"
  "Storage oddSpec i = [OtherKind ''&v1.ConfigMap{}'']"
  "Core oddSpec i = [OtherKind ''&v1.ConfigMap{}'']"
  by (simp_all add: trioSpec_def echoSpec_def oddSpec_def)

lemma demoRegistry_simps:
  "GetAll (factoryOf demoRegistry) = [trioSpec, echoSpec]"
  "Get (factoryOf demoRegistry) key =
     (if key = ''trio'' then Inr trioSpec
      else if key = ''echo'' then Inr echoSpec
      else Inl (ErrUnknownAppKind key))"
  by (simp_all add: factoryOf_def demoRegistry_def)

lemma demo_resolve_all:
  "resolveSpecs (factoryOf demoRegistry) \<lparr>AppKeys = []\<rparr> = (None, [trioSpec, echoSpec])"
  by (simp add: resolveSpecs_def demoRegistry_simps)

lemma demo_trio_ok:
  "list_all (\<lambda>n. n \<noteq> bad) [''sc'', ''p1'', ''p2'', ''d1'', ''d2'', ''d3''] \<Longrightarrow>
   scheduleSpec goSyntax (demoClient bad) i trioSpec (contexts, h) =
     (None, (contexts @ [\<lparr>UID = i, App = trioSpec\<rparr>],
             h @ [CreateStorageClassCall ''sc'', CreatePersistentVolumeClaimCall ''p1'',
                  CreatePersistentVolumeClaimCall ''p2'', CreateDeploymentCall ''d1'',
                  CreateDeploymentCall ''d2'', CreateDeploymentCall ''d3'']))"
  by (simp add: scheduleSpec_def createStorage_def createCore_def demoClient_simps demoSpec_simps)


lemma demo_plan:
  "schedulePlan i [trioSpec] =
     [CreateStorageClassCall ''sc'', CreatePersistentVolumeClaimCall ''p1'',
      CreatePersistentVolumeClaimCall ''p2'', CreateDeploymentCall ''d1'',
      CreateDeploymentCall ''d2'', CreateDeploymentCall ''d3'']"
  "schedulePlan i [trioSpec, echoSpec] =
     [CreateStorageClassCall ''sc'', CreatePersistentVolumeClaimCall ''p1'',
      CreatePersistentVolumeClaimCall ''p2'', CreateDeploymentCall ''d1'',
      CreateDeploymentCall ''d2'', CreateDeploymentCall ''d3'',
      CreatePersistentVolumeClaimCall (i @ ''-pvc''), CreateDeploymentCall (i @ ''-echo'')]"
  by (simp_all add: schedulePlan_def createCalls_def demoSpec_simps)


lemma demo_schedule_ok:
  "Schedule goSyntax (factoryOf demoRegistry) (demoClient []) ''run-1'' \<lparr>AppKeys = []\<rparr> [] =
     (([\<lparr>UID = ''run-1'', App = trioSpec\<rparr>, \<lparr>UID = ''run-1'', App = echoSpec\<rparr>], None),
      [CreateStorageClassCall ''sc'', CreatePersistentVolumeClaimCall ''p1'',
       CreatePersistentVolumeClaimCall ''p2'', CreateDeploymentCall ''d1'',
       CreateDeploymentCall ''d2'', CreateDeploymentCall ''d3'',
       CreatePersistentVolumeClaimCall ''run-1-pvc'', CreateDeploymentCall ''run-1-echo''])"
  by (simp add: Schedule_resolved [OF demo_resolve_all] demo_trio_ok
        scheduleSpec_def createStorage_def createCore_def demoClient_simps demoSpec_simps)

subsection \<open>Schedule: order of the calls, failure\<close>

text \<open>
  Claim C3. Within one \<open>Schedule\<close> call the create calls follow the order of the resolved
  specs, and for each spec the calls for its Storage resources, in the order the spec gives
  them, all come before the calls for its Core resources: the calls a call of \<open>Schedule\<close>
  issues are always an initial part of that sequence (\<open>schedulePlan\<close>), and the whole of it
  when \<open>Schedule\<close> returns no error.
\<close>

theorem Schedule_call_order:
  assumes "resolveSpecs F options = (None, specs)"
  shows "\<exists>tr. snd (Schedule goSyntax F K instanceID options h) = h @ tr \<and>
              prefix tr (schedulePlan instanceID specs) \<and>
              (snd (fst (Schedule goSyntax F K instanceID options h)) = None \<longrightarrow>
                 tr = schedulePlan instanceID specs)"
proof -
  obtain r contexts h' where
    loop: "forEach specs (scheduleSpec goSyntax K instanceID) ([], h) = (r, (contexts, h'))"
    by (cases "forEach specs (scheduleSpec goSyntax K instanceID) ([], h)") auto
  from specs_loop_trace [of specs goSyntax K instanceID "([], h)"] obtain tr where
    "snd (snd (forEach specs (scheduleSpec goSyntax K instanceID) ([], h))) = snd ([]::Context list, h) @ tr \<and>
     prefix tr (schedulePlan instanceID specs) \<and>
     (fst (forEach specs (scheduleSpec goSyntax K instanceID) ([], h)) = None \<longrightarrow>
        tr = schedulePlan instanceID specs)" ..
  with loop have tr: "h' = h @ tr" "prefix tr (schedulePlan instanceID specs)"
    "r = None \<longrightarrow> tr = schedulePlan instanceID specs"
    by simp_all
  have "snd (Schedule goSyntax F K instanceID options h) = h @ tr \<and>
        prefix tr (schedulePlan instanceID specs) \<and>
        (snd (fst (Schedule goSyntax F K instanceID options h)) = None \<longrightarrow>
           tr = schedulePlan instanceID specs)"
    using tr loop by (cases r) (simp_all add: Schedule_resolved [OF assms])
  then show ?thesis by (rule exI)
qed

theorem Schedule_call_order_witness:
  "resolveSpecs (factoryOf demoRegistry) \<lparr>AppKeys = []\<rparr> = (None, [trioSpec, echoSpec]) \<and>
   prefix (snd (Schedule demoSyntax (factoryOf demoRegistry) (demoClient ''d2'') ''run-1'' \<lparr>AppKeys = []\<rparr> []))
     [CreateStorageClassCall ''sc'', CreatePersistentVolumeClaimCall ''p1'',
      CreatePersistentVolumeClaimCall ''p2'', CreateDeploymentCall ''d1'',
      CreateDeploymentCall ''d2'', CreateDeploymentCall ''d3'',
      CreatePersistentVolumeClaimCall ''run-1-pvc'', CreateDeploymentCall ''run-1-echo''] \<and>
   snd (Schedule demoSyntax (factoryOf demoRegistry) (demoClient []) ''run-1'' \<lparr>AppKeys = []\<rparr> []) =
     [CreateStorageClassCall ''sc'', CreatePersistentVolumeClaimCall ''p1'',
      CreatePersistentVolumeClaimCall ''p2'', CreateDeploymentCall ''d1'',
      CreateDeploymentCall ''d2'', CreateDeploymentCall ''d3'',
      CreatePersistentVolumeClaimCall ''run-1-pvc'', CreateDeploymentCall ''run-1-echo'']"
proof -
  have plan: "schedulePlan ''run-1'' [trioSpec, echoSpec] =
     [CreateStorageClassCall ''sc'', CreatePersistentVolumeClaimCall ''p1'',
      CreatePersistentVolumeClaimCall ''p2'', CreateDeploymentCall ''d1'',
      CreateDeploymentCall ''d2'', CreateDeploymentCall ''d3'',
      CreatePersistentVolumeClaimCall ''run-1-pvc'', CreateDeploymentCall ''run-1-echo'']"
    by (simp add: demo_plan)
  from Schedule_call_order [OF demo_resolve_all, of demoSyntax "demoClient ''d2''" "''run-1''" "[]"]
  obtain tr where t:
    "snd (Schedule demoSyntax (factoryOf demoRegistry) (demoClient ''d2'') ''run-1'' \<lparr>AppKeys = []\<rparr> []) =
       [] @ tr \<and>
     prefix tr (schedulePlan ''run-1'' [trioSpec, echoSpec]) \<and>
     (snd (fst (Schedule demoSyntax (factoryOf demoRegistry) (demoClient ''d2'') ''run-1''
                  \<lparr>AppKeys = []\<rparr> [])) = None \<longrightarrow>
        tr = schedulePlan ''run-1'' [trioSpec, echoSpec])" ..
  from t [THEN conjunct1]
  have tr: "tr = snd (Schedule demoSyntax (factoryOf demoRegistry) (demoClient ''d2'') ''run-1''
                       \<lparr>AppKeys = []\<rparr> [])"
    by (simp only: append_Nil)
  have part: "prefix (snd (Schedule demoSyntax (factoryOf demoRegistry) (demoClient ''d2'') ''run-1''
                             \<lparr>AppKeys = []\<rparr> []))
     [CreateStorageClassCall ''sc'', CreatePersistentVolumeClaimCall ''p1'',
      CreatePersistentVolumeClaimCall ''p2'', CreateDeploymentCall ''d1'',
      CreateDeploymentCall ''d2'', CreateDeploymentCall ''d3'',
      CreatePersistentVolumeClaimCall ''run-1-pvc'', CreateDeploymentCall ''run-1-echo'']"
    using t [THEN conjunct2, THEN conjunct1] unfolding plan tr .
  have ok: "snd (fst (Schedule demoSyntax (factoryOf demoRegistry) (demoClient []) ''run-1''
                        \<lparr>AppKeys = []\<rparr> [])) = None"
    by (simp only: demo_schedule_ok fst_conv snd_conv)
  from Schedule_call_order [OF demo_resolve_all, of demoSyntax "demoClient []" "''run-1''" "[]"]
  obtain tr' where t':
    "snd (Schedule demoSyntax (factoryOf demoRegistry) (demoClient []) ''run-1'' \<lparr>AppKeys = []\<rparr> []) =
       [] @ tr' \<and>
     prefix tr' (schedulePlan ''run-1'' [trioSpec, echoSpec]) \<and>
     (snd (fst (Schedule demoSyntax (factoryOf demoRegistry) (demoClient []) ''run-1''
                  \<lparr>AppKeys = []\<rparr> [])) = None \<longrightarrow>
        tr' = schedulePlan ''run-1'' [trioSpec, echoSpec])" ..
  from t' [THEN conjunct2, THEN conjunct2, THEN mp, OF ok]
  have tr': "tr' = schedulePlan ''run-1'' [trioSpec, echoSpec]" .
  have whole: "snd (Schedule demoSyntax (factoryOf demoRegistry) (demoClient []) ''run-1'' \<lparr>AppKeys = []\<rparr> []) =
     [CreateStorageClassCall ''sc'', CreatePersistentVolumeClaimCall ''p1'',
      CreatePersistentVolumeClaimCall ''p2'', CreateDeploymentCall ''d1'',
      CreateDeploymentCall ''d2'', CreateDeploymentCall ''d3'',
      CreatePersistentVolumeClaimCall ''run-1-pvc'', CreateDeploymentCall ''run-1-echo'']"
    using t' [THEN conjunct1] unfolding tr' plan by (simp only: append_Nil)
  show ?thesis
    by (rule conjI [OF demo_resolve_all conjI [OF part whole]])
qed




subsection \<open>Schedule: success, unknown keys\<close>

lemma storage_loop_all:
  "list_all storageKind objs \<Longrightarrow> allSucceed K h (concat (map storageCalls objs)) \<Longrightarrow>
   forEach objs (createStorage goSyntax K spec) h = (None, h @ concat (map storageCalls objs))"
proof (induction objs arbitrary: h)
  case Nil
  show ?case by simp
next
  case (Cons x xs)
  from Cons.prems(1) have kind: "storageKind x" and rest: "list_all storageKind xs"
    by simp_all
  from Cons.prems(2) have ok: "allSucceed K h (storageCalls x)"
    and later: "allSucceed K (h @ storageCalls x) (concat (map storageCalls xs))"
    by (simp_all add: allSucceed_append)
  from kind ok have "createStorage goSyntax K spec x h = (None, h @ storageCalls x)"
    by (cases x) (simp_all add: createStorage_def split: sum.splits)
  with Cons.IH [OF rest later] show ?case by simp
qed

lemma core_loop_all:
  "list_all coreKind objs \<Longrightarrow> allSucceed K h (concat (map coreCalls objs)) \<Longrightarrow>
   forEach objs (createCore goSyntax K spec) h = (None, h @ concat (map coreCalls objs))"
proof (induction objs arbitrary: h)
  case Nil
  show ?case by simp
next
  case (Cons x xs)
  from Cons.prems(1) have kind: "coreKind x" and rest: "list_all coreKind xs"
    by simp_all
  from Cons.prems(2) have ok: "allSucceed K h (coreCalls x)"
    and later: "allSucceed K (h @ coreCalls x) (concat (map coreCalls xs))"
    by (simp_all add: allSucceed_append)
  from kind ok have "createCore goSyntax K spec x h = (None, h @ coreCalls x)"
    by (cases x) (simp_all add: createCore_def split: sum.splits)
  with Cons.IH [OF rest later] show ?case by simp
qed

lemma scheduleSpec_all:
  assumes "list_all storageKind (Storage spec instanceID)"
    and "list_all coreKind (Core spec instanceID)"
    and "allSucceed K h (createCalls instanceID spec)"
  shows "scheduleSpec goSyntax K instanceID spec (contexts, h) =
     (None, (contexts @ [\<lparr>UID = instanceID, App = spec\<rparr>], h @ createCalls instanceID spec))"
proof -
  from assms(3) have
    s: "allSucceed K h (concat (map storageCalls (Storage spec instanceID)))" and
    c: "allSucceed K (h @ concat (map storageCalls (Storage spec instanceID)))
          (concat (map coreCalls (Core spec instanceID)))"
    by (simp_all add: createCalls_def allSucceed_append)
  show ?thesis
    by (simp add: scheduleSpec_def createCalls_def
          storage_loop_all [OF assms(1) s] core_loop_all [OF assms(2) c])
qed

lemma specs_loop_all:
  "\<forall>spec\<in>set specs. list_all storageKind (Storage spec instanceID) \<and>
                      list_all coreKind (Core spec instanceID) \<Longrightarrow>
   allSucceed K h (schedulePlan instanceID specs) \<Longrightarrow>
   forEach specs (scheduleSpec goSyntax K instanceID) (contexts, h) =
     (None, (contexts @ map (\<lambda>spec. \<lparr>UID = instanceID, App = spec\<rparr>) specs,
             h @ schedulePlan instanceID specs))"
proof (induction specs arbitrary: contexts h)
  case Nil
  show ?case by (simp add: schedulePlan_def)
next
  case (Cons spec specs)
  from Cons.prems(1) have
    k1: "list_all storageKind (Storage spec instanceID)" and
    k2: "list_all coreKind (Core spec instanceID)" and
    ks: "\<forall>spec\<in>set specs. list_all storageKind (Storage spec instanceID) \<and>
                           list_all coreKind (Core spec instanceID)"
    by simp_all
  from Cons.prems(2) have
    a1: "allSucceed K h (createCalls instanceID spec)" and
    a2: "allSucceed K (h @ createCalls instanceID spec) (schedulePlan instanceID specs)"
    by (simp_all add: schedulePlan_def allSucceed_append)
  from scheduleSpec_all [OF k1 k2 a1, of goSyntax contexts]
       Cons.IH [OF ks a2, of "contexts @ [\<lparr>UID = instanceID, App = spec\<rparr>]"]
  show ?case by (simp add: schedulePlan_def)
qed

lemma resolve_loop_fail:
  "key \<in> set keys \<Longrightarrow> Get F key = Inl e \<Longrightarrow>
   \<exists>ks k' rest e'. keys = ks @ k' # rest \<and> (\<forall>k\<in>set ks. \<exists>spec. Get F k = Inr spec) \<and>
      Get F k' = Inl e' \<and>
      fst (forEach keys
             (\<lambda>key specs. case Get F key of
                             Inl err \<Rightarrow> (Some err, specs)
                           | Inr spec \<Rightarrow> (None, specs @ [spec]))
             acc) = Some e'"
proof (induction keys arbitrary: acc)
  case Nil
  then show ?case by simp
next
  case (Cons k keys)
  show ?case
  proof (cases "Get F k")
    case (Inl e0)
    then have "k # keys = [] @ k # keys \<and> (\<forall>k\<in>set []. \<exists>spec. Get F k = Inr spec) \<and>
      Get F k = Inl e0 \<and>
      fst (forEach (k # keys)
             (\<lambda>key specs. case Get F key of
                             Inl err \<Rightarrow> (Some err, specs)
                           | Inr spec \<Rightarrow> (None, specs @ [spec]))
             acc) = Some e0"
      by simp
    then show ?thesis by blast
  next
    case (Inr spec)
    with Cons.prems have "key \<in> set keys" by auto
    from Cons.IH [OF this Cons.prems(2), of "acc @ [spec]"] obtain ks k' rest e' where
      d: "keys = ks @ k' # rest" "\<forall>k\<in>set ks. \<exists>spec. Get F k = Inr spec" "Get F k' = Inl e'"
         "fst (forEach keys
             (\<lambda>key specs. case Get F key of
                             Inl err \<Rightarrow> (Some err, specs)
                           | Inr spec \<Rightarrow> (None, specs @ [spec]))
             (acc @ [spec])) = Some e'"
      by blast
    with Inr have "k # keys = (k # ks) @ k' # rest \<and>
      (\<forall>k\<in>set (k # ks). \<exists>spec. Get F k = Inr spec) \<and>
      Get F k' = Inl e' \<and>
      fst (forEach (k # keys)
             (\<lambda>key specs. case Get F key of
                             Inl err \<Rightarrow> (Some err, specs)
                           | Inr spec \<Rightarrow> (None, specs @ [spec]))
             acc) = Some e'"
      by simp
    then show ?thesis by blast
  qed
qed

lemma demo_resolve_echo:
  "resolveSpecs (factoryOf demoRegistry) \<lparr>AppKeys = [''echo'']\<rparr> = (None, [echoSpec])"
  by (simp add: resolveSpecs_def demoRegistry_simps)

text \<open>
  Claim C4. When every materialization of a \<open>Schedule\<close> call succeeds (every object of
  the resolved specs is of a kind its loop knows and the cluster answers every create call
  of the call without an error), \<open>Schedule\<close> returns no error and exactly one Context per
  resolved spec, in the order of the specs, each with \<open>UID\<close> the instance ID and \<open>App\<close> its
  spec. With no \<open>AppKeys\<close> the resolved specs are all the registered specs, in registration
  order.
\<close>

theorem Schedule_one_context_per_spec:
  assumes res: "resolveSpecs F options = (None, specs)"
    and kinds: "\<forall>spec\<in>set specs. list_all storageKind (Storage spec instanceID) \<and>
                                  list_all coreKind (Core spec instanceID)"
    and ok: "allSucceed K h (schedulePlan instanceID specs)"
  shows "Schedule goSyntax F K instanceID options h =
           ((map (\<lambda>spec. \<lparr>UID = instanceID, App = spec\<rparr>) specs, None),
            h @ schedulePlan instanceID specs) \<and>
         (AppKeys options = [] \<longrightarrow>
            specs = GetAll F \<and> (F = factoryOf reg \<longrightarrow> specs = map snd reg))"
proof
  show "Schedule goSyntax F K instanceID options h =
           ((map (\<lambda>spec. \<lparr>UID = instanceID, App = spec\<rparr>) specs, None),
            h @ schedulePlan instanceID specs)"
    by (simp add: Schedule_resolved [OF res] specs_loop_all [OF kinds ok])
next
  show "AppKeys options = [] \<longrightarrow>
          specs = GetAll F \<and> (F = factoryOf reg \<longrightarrow> specs = map snd reg)"
  proof
    assume none: "AppKeys options = []"
    from res have all: "specs = GetAll F"
      by (simp add: resolveSpecs_def none)
    then show "specs = GetAll F \<and> (F = factoryOf reg \<longrightarrow> specs = map snd reg)"
      by (simp add: factoryOf_def)
  qed
qed

theorem Schedule_one_context_per_spec_witness:
  "resolveSpecs (factoryOf demoRegistry) \<lparr>AppKeys = []\<rparr> = (None, [trioSpec, echoSpec]) \<and>
   list_all storageKind (Storage trioSpec ''run-1'') \<and> list_all coreKind (Core trioSpec ''run-1'') \<and>
   list_all storageKind (Storage echoSpec ''run-1'') \<and> list_all coreKind (Core echoSpec ''run-1'') \<and>
   allSucceed (demoClient []) [] (schedulePlan ''run-1'' [trioSpec, echoSpec]) \<and>
   Schedule demoSyntax (factoryOf demoRegistry) (demoClient []) ''run-1'' \<lparr>AppKeys = []\<rparr> [] =
     (([\<lparr>UID = ''run-1'', App = trioSpec\<rparr>, \<lparr>UID = ''run-1'', App = echoSpec\<rparr>], None),
      [CreateStorageClassCall ''sc'', CreatePersistentVolumeClaimCall ''p1'',
       CreatePersistentVolumeClaimCall ''p2'', CreateDeploymentCall ''d1'',
       CreateDeploymentCall ''d2'', CreateDeploymentCall ''d3'',
       CreatePersistentVolumeClaimCall ''run-1-pvc'', CreateDeploymentCall ''run-1-echo'']) \<and>
   [trioSpec, echoSpec] = map snd demoRegistry \<and>
   resolveSpecs (factoryOf demoRegistry) \<lparr>AppKeys = [''echo'']\<rparr> = (None, [echoSpec]) \<and>
   allSucceed (demoClient []) [] (schedulePlan ''run-1'' [echoSpec]) \<and>
   Schedule demoSyntax (factoryOf demoRegistry) (demoClient []) ''run-1'' \<lparr>AppKeys = [''echo'']\<rparr> [] =
     (([\<lparr>UID = ''run-1'', App = echoSpec\<rparr>], None),
      [CreatePersistentVolumeClaimCall ''run-1-pvc'', CreateDeploymentCall ''run-1-echo''])"
proof -
  have k: "list_all storageKind (Storage trioSpec ''run-1'')"
          "list_all coreKind (Core trioSpec ''run-1'')"
          "list_all storageKind (Storage echoSpec ''run-1'')"
          "list_all coreKind (Core echoSpec ''run-1'')"
    by (simp_all add: demoSpec_simps)
  then have kinds: "\<forall>spec\<in>set [trioSpec, echoSpec].
                      list_all storageKind (Storage spec ''run-1'') \<and>
                      list_all coreKind (Core spec ''run-1'')"
    and kinds': "\<forall>spec\<in>set [echoSpec].
                      list_all storageKind (Storage spec ''run-1'') \<and>
                      list_all coreKind (Core spec ''run-1'')"
    by simp_all
  have ok: "allSucceed (demoClient []) [] (schedulePlan ''run-1'' [trioSpec, echoSpec])"
    by (simp add: demo_plan demoClient_simps)
  have plan': "schedulePlan ''run-1'' [echoSpec] =
                 [CreatePersistentVolumeClaimCall ''run-1-pvc'', CreateDeploymentCall ''run-1-echo'']"
    by (simp add: schedulePlan_def createCalls_def demoSpec_simps)
  have ok': "allSucceed (demoClient []) [] (schedulePlan ''run-1'' [echoSpec])"
    by (simp add: plan' demoClient_simps)
  note whole = Schedule_one_context_per_spec [OF demo_resolve_all kinds ok, where reg = demoRegistry]
  from whole [THEN conjunct1]
  have r: "Schedule demoSyntax (factoryOf demoRegistry) (demoClient []) ''run-1'' \<lparr>AppKeys = []\<rparr> [] =
     (([\<lparr>UID = ''run-1'', App = trioSpec\<rparr>, \<lparr>UID = ''run-1'', App = echoSpec\<rparr>], None),
      [CreateStorageClassCall ''sc'', CreatePersistentVolumeClaimCall ''p1'',
       CreatePersistentVolumeClaimCall ''p2'', CreateDeploymentCall ''d1'',
       CreateDeploymentCall ''d2'', CreateDeploymentCall ''d3'',
       CreatePersistentVolumeClaimCall ''run-1-pvc'', CreateDeploymentCall ''run-1-echo''])"
    by (simp add: demo_plan)
  have none: "AppKeys \<lparr>AppKeys = []\<rparr> = []"
    by simp
  from whole [THEN conjunct2, THEN mp, OF none, THEN conjunct2, THEN mp, OF refl]
  have all: "[trioSpec, echoSpec] = map snd demoRegistry" .
  from Schedule_one_context_per_spec [OF demo_resolve_echo kinds' ok', where reg = demoRegistry,
         THEN conjunct1]
  have r': "Schedule demoSyntax (factoryOf demoRegistry) (demoClient []) ''run-1'' \<lparr>AppKeys = [''echo'']\<rparr> [] =
     (([\<lparr>UID = ''run-1'', App = echoSpec\<rparr>], None),
      [CreatePersistentVolumeClaimCall ''run-1-pvc'', CreateDeploymentCall ''run-1-echo''])"
    by (simp add: plan')
  show ?thesis
    by (intro conjI) (rule demo_resolve_all k ok r all demo_resolve_echo ok' r')+
qed

text \<open>
  Claim C9. The listed keys are all resolved before anything is created: when
  \<open>factory.Get\<close> fails for a listed key, \<open>Schedule\<close> returns the error of the first such key
  (\<open>UnknownAppKind\<close> for the factory of the spec) with nil contexts, and no call has been
  issued to the cluster, whatever stands before or after that key in the list.
\<close>

theorem Schedule_unknown_key:
  assumes "key \<in> set (AppKeys options)" and "Get F key = Inl e"
  shows "\<exists>ks k' rest e'.
           AppKeys options = ks @ k' # rest \<and>
           (\<forall>k\<in>set ks. \<exists>spec. Get F k = Inr spec) \<and>
           Get F k' = Inl e' \<and>
           (F = factoryOf reg \<longrightarrow> e' = ErrUnknownAppKind k') \<and>
           Schedule goSyntax F K instanceID options h = (([], Some e'), h)"
proof -
  from assms(1) have ne: "AppKeys options \<noteq> []" by auto
  from resolve_loop_fail [OF assms, of "[]"] obtain ks k' rest e' where
    d: "AppKeys options = ks @ k' # rest" "\<forall>k\<in>set ks. \<exists>spec. Get F k = Inr spec"
       "Get F k' = Inl e'"
       "fst (forEach (AppKeys options)
             (\<lambda>key specs. case Get F key of
                             Inl err \<Rightarrow> (Some err, specs)
                           | Inr spec \<Rightarrow> (None, specs @ [spec]))
             []) = Some e'"
    by blast
  from d(4) ne have "fst (resolveSpecs F options) = Some e'"
    by (simp add: resolveSpecs_def)
  then have run: "Schedule goSyntax F K instanceID options h = (([], Some e'), h)"
    by (cases "resolveSpecs F options") (simp add: Schedule_def)
  have kind: "F = factoryOf reg \<longrightarrow> e' = ErrUnknownAppKind k'"
    using d(3) by (auto simp: factoryOf_def split: option.splits)
  from d(1,2,3) kind run show ?thesis by blast
qed

theorem Schedule_unknown_key_witness:
  "''nope'' \<in> set (AppKeys \<lparr>AppKeys = [''echo'', ''nope'', ''trio'']\<rparr>) \<and>
   Get (factoryOf demoRegistry) ''nope'' = Inl (ErrUnknownAppKind ''nope'') \<and>
   (\<exists>ks k' rest e'.
      AppKeys \<lparr>AppKeys = [''echo'', ''nope'', ''trio'']\<rparr> = ks @ k' # rest \<and>
      (\<forall>k\<in>set ks. \<exists>spec. Get (factoryOf demoRegistry) k = Inr spec) \<and>
      Get (factoryOf demoRegistry) k' = Inl e' \<and>
      (factoryOf demoRegistry = factoryOf demoRegistry \<longrightarrow> e' = ErrUnknownAppKind k') \<and>
      Schedule demoSyntax (factoryOf demoRegistry) (demoClient []) ''run-1''
        \<lparr>AppKeys = [''echo'', ''nope'', ''trio'']\<rparr> [] = (([], Some e'), [])) \<and>
   Schedule demoSyntax (factoryOf demoRegistry) (demoClient []) ''run-1''
     \<lparr>AppKeys = [''echo'', ''nope'', ''trio'']\<rparr> [] = (([], Some (ErrUnknownAppKind ''nope'')), [])"
proof -
  have a: "''nope'' \<in> set (AppKeys \<lparr>AppKeys = [''echo'', ''nope'', ''trio'']\<rparr>)"
    by simp
  have b: "Get (factoryOf demoRegistry) ''nope'' = Inl (ErrUnknownAppKind ''nope'')"
    by (simp add: demoRegistry_simps)
  note c = Schedule_unknown_key [OF a b, where reg = demoRegistry and K = "demoClient []"
             and instanceID = "''run-1''" and h = "[]"]
  have d: "Schedule demoSyntax (factoryOf demoRegistry) (demoClient []) ''run-1''
     \<lparr>AppKeys = [''echo'', ''nope'', ''trio'']\<rparr> [] = (([], Some (ErrUnknownAppKind ''nope'')), [])"
    by (simp add: Schedule_def resolveSpecs_def demoRegistry_simps)
  show ?thesis
    by (rule conjI [OF a conjI [OF b conjI [OF c d]]])
qed

subsection \<open>Objects of a kind an operation has no branch for\<close>

lemma forEach_reached:
  "forEach pre f s = (None, s1) \<Longrightarrow> f x s1 = (Some e, s2) \<Longrightarrow>
   forEach (pre @ x # post) f s = (Some e, s2)"
  by (simp add: forEach_append)

lemma forEach_must_fail:
  "x \<in> set xs \<Longrightarrow> (\<And>s. fst (f x s) \<noteq> None) \<Longrightarrow> fst (forEach xs f s) \<noteq> None"
proof (induction xs arbitrary: s)
  case Nil
  then show ?case by simp
next
  case (Cons y ys)
  obtain r s1 where fy: "f y s = (r, s1)" by (cases "f y s")
  show ?case
  proof (cases r)
    case (Some e)
    with fy show ?thesis by simp
  next
    case None
    with fy Cons.prems(2) [of s] have "x \<noteq> y" by auto
    with Cons.prems(1) have "x \<in> set ys" by simp
    from Cons.IH [OF this Cons.prems(2), of s1] fy None show ?thesis by simp
  qed
qed

lemma forEach_fails_with:
  assumes "x \<in> set xs" and "\<And>s. fst (f x s) \<noteq> None"
  shows "\<exists>e s' y s1. y \<in> set xs \<and> f y s1 = (Some e, s') \<and> forEach xs f s = (Some e, s')"
proof -
  from forEach_must_fail [of x xs f s, OF assms] obtain e s' where
    run: "forEach xs f s = (Some e, s')"
    by (cases "forEach xs f s") auto
  from forEach_fail_decomp [OF run] obtain pre y post s1 where
    "xs = pre @ y # post" "f y s1 = (Some e, s')" by blast
  with run have "y \<in> set xs \<and> f y s1 = (Some e, s') \<and> forEach xs f s = (Some e, s')"
    by simp
  then show ?thesis by blast
qed

lemma validateCore_error:
  "validateCore goSyntax K ctx x h = (Some e, h') \<Longrightarrow> \<exists>cause. e = ErrFailedToValidateApp (App ctx) cause"
  by (cases x) (auto simp: validateCore_def split: option.splits)

lemma WaitForRunning_never_skips:
  assumes "x \<in> set (Core (App ctx) (UID ctx))" and "\<not> coreKind x"
  shows "\<exists>cause h'. WaitForRunning goSyntax K ctx h = (Some (ErrFailedToValidateApp (App ctx) cause), h')"
proof -
  have "\<And>s. fst (validateCore goSyntax K ctx x s) \<noteq> None"
    by (simp add: validateCore_unsupported [OF assms(2)])
  from forEach_fails_with [of x "Core (App ctx) (UID ctx)" "validateCore goSyntax K ctx" h, OF assms(1) this]
  obtain e h' y s1 where
    "validateCore goSyntax K ctx y s1 = (Some e, h')"
    "forEach (Core (App ctx) (UID ctx)) (validateCore goSyntax K ctx) h = (Some e, h')"
    by blast
  with validateCore_error [of goSyntax K ctx y s1 e h'] show ?thesis
    by (auto simp: WaitForRunning_def)
qed

lemma WaitForRunning_reaches_unsupported:
  assumes "Core (App ctx) (UID ctx) = pre @ x # post" and "\<not> coreKind x"
    and "forEach pre (validateCore goSyntax K ctx) h = (None, h1)"
  shows "WaitForRunning goSyntax K ctx h =
     (Some (ErrFailedToValidateApp (App ctx)
        (''Failed to validate unsupported core component: '' @ goSyntax x @ ''.'')), h1)"
  unfolding WaitForRunning_def assms(1)
  by (rule forEach_reached [OF assms(3) validateCore_unsupported [OF assms(2)]])

lemma destroyCore_error:
  "destroyCore goSyntax K ctx x h = (Some e, h') \<Longrightarrow> \<exists>cause. e = ErrFailedToDestroyApp (App ctx) cause"
  by (cases x) (auto simp: destroyCore_def split: option.splits)

lemma Destroy_never_skips:
  assumes "x \<in> set (Core (App ctx) (UID ctx))" and "\<not> coreKind x"
  shows "\<exists>cause h'. Destroy goSyntax K ctx h = (Some (ErrFailedToDestroyApp (App ctx) cause), h')"
proof -
  have "\<And>s. fst (destroyCore goSyntax K ctx x s) \<noteq> None"
    by (simp add: destroyCore_unsupported [OF assms(2)])
  from forEach_fails_with [of x "Core (App ctx) (UID ctx)" "destroyCore goSyntax K ctx" h, OF assms(1) this]
  obtain e h' y s1 where
    "destroyCore goSyntax K ctx y s1 = (Some e, h')"
    "forEach (Core (App ctx) (UID ctx)) (destroyCore goSyntax K ctx) h = (Some e, h')"
    by blast
  with destroyCore_error [of goSyntax K ctx y s1 e h'] show ?thesis
    by (auto simp: Destroy_def)
qed

lemma Destroy_reaches_unsupported:
  assumes "Core (App ctx) (UID ctx) = pre @ x # post" and "\<not> coreKind x"
    and "forEach pre (destroyCore goSyntax K ctx) h = (None, h1)"
  shows "Destroy goSyntax K ctx h =
     (Some (ErrFailedToDestroyApp (App ctx)
        (''Failed to destroy unsupported core component: '' @ goSyntax x @ ''.'')), h1)"
  unfolding Destroy_def assms(1)
  by (rule forEach_reached [OF assms(3) destroyCore_unsupported [OF assms(2)]])

lemma validateDestroyCore_unsupported:
  "\<not> coreKind x \<Longrightarrow>
   validateDestroyCore goSyntax K ctx x h =
     (Some (ErrFailedToValidateAppDestroy (App ctx)
        (''Failed to validate destory of unsupported core component: '' @ goSyntax x @ ''.'')), h)"
  by (cases x) (simp_all add: validateDestroyCore_def)

lemma validateDestroyCore_error:
  "validateDestroyCore goSyntax K ctx x h = (Some e, h') \<Longrightarrow> \<exists>cause. e = ErrFailedToValidateAppDestroy (App ctx) cause"
  by (cases x) (auto simp: validateDestroyCore_def split: option.splits)

lemma WaitForDestroy_never_skips:
  assumes "x \<in> set (Core (App ctx) (UID ctx))" and "\<not> coreKind x"
  shows "\<exists>cause h'. WaitForDestroy goSyntax K ctx h = (Some (ErrFailedToValidateAppDestroy (App ctx) cause), h')"
proof -
  have "\<And>s. fst (validateDestroyCore goSyntax K ctx x s) \<noteq> None"
    by (simp add: validateDestroyCore_unsupported [OF assms(2)])
  from forEach_fails_with [of x "Core (App ctx) (UID ctx)" "validateDestroyCore goSyntax K ctx" h, OF assms(1) this]
  obtain e h' y s1 where
    "validateDestroyCore goSyntax K ctx y s1 = (Some e, h')"
    "forEach (Core (App ctx) (UID ctx)) (validateDestroyCore goSyntax K ctx) h = (Some e, h')"
    by blast
  with validateDestroyCore_error [of goSyntax K ctx y s1 e h'] show ?thesis
    by (auto simp: WaitForDestroy_def)
qed

lemma WaitForDestroy_reaches_unsupported:
  assumes "Core (App ctx) (UID ctx) = pre @ x # post" and "\<not> coreKind x"
    and "forEach pre (validateDestroyCore goSyntax K ctx) h = (None, h1)"
  shows "WaitForDestroy goSyntax K ctx h =
     (Some (ErrFailedToValidateAppDestroy (App ctx)
        (''Failed to validate destory of unsupported core component: '' @ goSyntax x @ ''.'')), h1)"
  unfolding WaitForDestroy_def assms(1)
  by (rule forEach_reached [OF assms(3) validateDestroyCore_unsupported [OF assms(2)]])

lemma validateStorage_unsupported:
  "\<not> storageKind x \<Longrightarrow>
   validateStorage goSyntax K ctx x h =
     (Some (ErrFailedToValidateStorage (App ctx)
        (''Failed to validate unsupported storage component: '' @ goSyntax x @ ''.'')), h)"
  by (cases x) (simp_all add: validateStorage_def)

lemma validateStorage_error:
  "validateStorage goSyntax K ctx x h = (Some e, h') \<Longrightarrow> \<exists>cause. e = ErrFailedToValidateStorage (App ctx) cause"
  by (cases x) (auto simp: validateStorage_def split: option.splits)

lemma InspectVolumes_never_skips:
  assumes "x \<in> set (Storage (App ctx) (UID ctx))" and "\<not> storageKind x"
  shows "\<exists>cause h'. InspectVolumes goSyntax K ctx h = (Some (ErrFailedToValidateStorage (App ctx) cause), h')"
proof -
  have "\<And>s. fst (validateStorage goSyntax K ctx x s) \<noteq> None"
    by (simp add: validateStorage_unsupported [OF assms(2)])
  from forEach_fails_with [of x "Storage (App ctx) (UID ctx)" "validateStorage goSyntax K ctx" h, OF assms(1) this]
  obtain e h' y s1 where
    "validateStorage goSyntax K ctx y s1 = (Some e, h')"
    "forEach (Storage (App ctx) (UID ctx)) (validateStorage goSyntax K ctx) h = (Some e, h')"
    by blast
  with validateStorage_error [of goSyntax K ctx y s1 e h'] show ?thesis
    by (auto simp: InspectVolumes_def)
qed

lemma InspectVolumes_reaches_unsupported:
  assumes "Storage (App ctx) (UID ctx) = pre @ x # post" and "\<not> storageKind x"
    and "forEach pre (validateStorage goSyntax K ctx) h = (None, h1)"
  shows "InspectVolumes goSyntax K ctx h =
     (Some (ErrFailedToValidateStorage (App ctx)
        (''Failed to validate unsupported storage component: '' @ goSyntax x @ ''.'')), h1)"
  unfolding InspectVolumes_def assms(1)
  by (rule forEach_reached [OF assms(3) validateStorage_unsupported [OF assms(2)]])

lemma destroyStorage_unsupported:
  "\<not> storageKind x \<Longrightarrow>
   destroyStorage goSyntax K ctx x h =
     (Some (ErrFailedToDestroyStorage (App ctx)
        (''Failed to destroy unsupported storage component: '' @ goSyntax x @ ''.'')), h)"
  by (cases x) (simp_all add: destroyStorage_def)

lemma destroyStorage_error:
  "destroyStorage goSyntax K ctx x h = (Some e, h') \<Longrightarrow> \<exists>cause. e = ErrFailedToDestroyStorage (App ctx) cause"
  by (cases x) (auto simp: destroyStorage_def split: option.splits)

lemma DeleteVolumes_never_skips:
  assumes "x \<in> set (Storage (App ctx) (UID ctx))" and "\<not> storageKind x"
  shows "\<exists>cause h'. DeleteVolumes goSyntax K ctx h = (Some (ErrFailedToDestroyStorage (App ctx) cause), h')"
proof -
  have "\<And>s. fst (destroyStorage goSyntax K ctx x s) \<noteq> None"
    by (simp add: destroyStorage_unsupported [OF assms(2)])
  from forEach_fails_with [of x "Storage (App ctx) (UID ctx)" "destroyStorage goSyntax K ctx" h, OF assms(1) this]
  obtain e h' y s1 where
    "destroyStorage goSyntax K ctx y s1 = (Some e, h')"
    "forEach (Storage (App ctx) (UID ctx)) (destroyStorage goSyntax K ctx) h = (Some e, h')"
    by blast
  with destroyStorage_error [of goSyntax K ctx y s1 e h'] show ?thesis
    by (auto simp: DeleteVolumes_def)
qed

lemma DeleteVolumes_reaches_unsupported:
  assumes "Storage (App ctx) (UID ctx) = pre @ x # post" and "\<not> storageKind x"
    and "forEach pre (destroyStorage goSyntax K ctx) h = (None, h1)"
  shows "DeleteVolumes goSyntax K ctx h =
     (Some (ErrFailedToDestroyStorage (App ctx)
        (''Failed to destroy unsupported storage component: '' @ goSyntax x @ ''.'')), h1)"
  unfolding DeleteVolumes_def assms(1)
  by (rule forEach_reached [OF assms(3) destroyStorage_unsupported [OF assms(2)]])

lemma createStorage_unsupported:
  "\<not> storageKind x \<Longrightarrow>
   createStorage goSyntax K spec x h =
     (Some (ErrFailedToScheduleApp spec
        (''Failed to create unsupported storage component: '' @ goSyntax x @ ''.'')), h)"
  by (cases x) (simp_all add: createStorage_def)

lemma createCore_unsupported:
  "\<not> coreKind x \<Longrightarrow>
   createCore goSyntax K spec x h =
     (Some (ErrFailedToScheduleApp spec
        (''Failed to create unsupported core component: '' @ goSyntax x @ ''.'')), h)"
  by (cases x) (simp_all add: createCore_def)

lemma scheduleSpec_error:
  assumes "scheduleSpec goSyntax K instanceID spec st = (Some e, st')"
  shows "\<exists>cause. e = ErrFailedToScheduleApp spec cause"
proof -
  obtain contexts h where st: "st = (contexts, h)" by (cases st)
  from scheduleSpec_cases [of goSyntax K instanceID spec contexts h] assms [unfolded st]
  show ?thesis by auto
qed

lemma scheduleSpec_must_fail:
  assumes "x \<in> set (Storage spec instanceID) \<and> \<not> storageKind x \<or>
           x \<in> set (Core spec instanceID) \<and> \<not> coreKind x"
  shows "fst (scheduleSpec goSyntax K instanceID spec st) \<noteq> None"
proof -
  obtain contexts h where st: "st = (contexts, h)" by (cases st)
  obtain r1 h1 where s: "forEach (Storage spec instanceID) (createStorage goSyntax K spec) h = (r1, h1)"
    by (cases "forEach (Storage spec instanceID) (createStorage goSyntax K spec) h")
  show ?thesis
  proof (cases r1)
    case (Some e)
    with s show ?thesis by (simp add: st scheduleSpec_def)
  next
    case None
    have "\<not> (x \<in> set (Storage spec instanceID) \<and> \<not> storageKind x)"
    proof
      assume a: "x \<in> set (Storage spec instanceID) \<and> \<not> storageKind x"
      then have "\<And>s. fst (createStorage goSyntax K spec x s) \<noteq> None"
        by (simp add: createStorage_unsupported)
      from forEach_must_fail [of x "Storage spec instanceID" "createStorage goSyntax K spec" h, OF _ this] a
      have "fst (forEach (Storage spec instanceID) (createStorage goSyntax K spec) h) \<noteq> None" by simp
      with s None show False by simp
    qed
    with assms have c: "x \<in> set (Core spec instanceID)" "\<not> coreKind x" by auto
    from c(2) have "\<And>s. fst (createCore goSyntax K spec x s) \<noteq> None"
      by (simp add: createCore_unsupported)
    from forEach_must_fail [of x "Core spec instanceID" "createCore goSyntax K spec" h1, OF c(1) this]
    obtain e h2 where "forEach (Core spec instanceID) (createCore goSyntax K spec) h1 = (Some e, h2)"
      by (cases "forEach (Core spec instanceID) (createCore goSyntax K spec) h1") auto
    with s None show ?thesis by (simp add: st scheduleSpec_def)
  qed
qed

lemma Schedule_never_skips:
  assumes res: "resolveSpecs F options = (None, specs)" and mem: "spec \<in> set specs"
    and bad: "x \<in> set (Storage spec instanceID) \<and> \<not> storageKind x \<or>
              x \<in> set (Core spec instanceID) \<and> \<not> coreKind x"
  shows "\<exists>spec' cause h'. spec' \<in> set specs \<and>
           Schedule goSyntax F K instanceID options h = (([], Some (ErrFailedToScheduleApp spec' cause)), h')"
proof -
  have "\<And>st. fst (scheduleSpec goSyntax K instanceID spec st) \<noteq> None"
    by (rule scheduleSpec_must_fail [OF bad])
  from forEach_fails_with [of spec specs "scheduleSpec goSyntax K instanceID" "([], h)", OF mem this]
  obtain e st' y s1 where
    y: "y \<in> set specs" "scheduleSpec goSyntax K instanceID y s1 = (Some e, st')"
       "forEach specs (scheduleSpec goSyntax K instanceID) ([], h) = (Some e, st')"
    by blast
  from scheduleSpec_error [OF y(2)] obtain cause where e: "e = ErrFailedToScheduleApp y cause" ..
  obtain contexts h' where "st' = (contexts, h')" by (cases st')
  with y(3) e have "Schedule goSyntax F K instanceID options h =
                      (([], Some (ErrFailedToScheduleApp y cause)), h')"
    by (simp add: Schedule_resolved [OF res])
  with y(1) show ?thesis by blast
qed

lemma Schedule_reaches_unsupported_storage:
  assumes res: "resolveSpecs F options = (None, before @ spec # after)"
    and pre: "forEach before (scheduleSpec goSyntax K instanceID) ([], h) = (None, (contexts, h1))"
    and lst: "Storage spec instanceID = pre @ x # post" and kind: "\<not> storageKind x"
    and ok: "forEach pre (createStorage goSyntax K spec) h1 = (None, h2)"
  shows "Schedule goSyntax F K instanceID options h =
     (([], Some (ErrFailedToScheduleApp spec
             (''Failed to create unsupported storage component: '' @ goSyntax x @ ''.''))), h2)"
proof -
  have "forEach (Storage spec instanceID) (createStorage goSyntax K spec) h1 =
          (Some (ErrFailedToScheduleApp spec
             (''Failed to create unsupported storage component: '' @ goSyntax x @ ''.'')), h2)"
    unfolding lst by (rule forEach_reached [OF ok createStorage_unsupported [OF kind]])
  then have "scheduleSpec goSyntax K instanceID spec (contexts, h1) =
          (Some (ErrFailedToScheduleApp spec
             (''Failed to create unsupported storage component: '' @ goSyntax x @ ''.'')),
           (contexts, h2))"
    by (simp add: scheduleSpec_def)
  from forEach_reached [OF pre this]
  show ?thesis by (simp add: Schedule_resolved [OF res])
qed

lemma Schedule_reaches_unsupported_core:
  assumes res: "resolveSpecs F options = (None, before @ spec # after)"
    and pre: "forEach before (scheduleSpec goSyntax K instanceID) ([], h) = (None, (contexts, h1))"
    and sto: "forEach (Storage spec instanceID) (createStorage goSyntax K spec) h1 = (None, h2)"
    and lst: "Core spec instanceID = pre @ x # post" and kind: "\<not> coreKind x"
    and ok: "forEach pre (createCore goSyntax K spec) h2 = (None, h3)"
  shows "Schedule goSyntax F K instanceID options h =
     (([], Some (ErrFailedToScheduleApp spec
             (''Failed to create unsupported core component: '' @ goSyntax x @ ''.''))), h3)"
proof -
  have "forEach (Core spec instanceID) (createCore goSyntax K spec) h2 =
          (Some (ErrFailedToScheduleApp spec
             (''Failed to create unsupported core component: '' @ goSyntax x @ ''.'')), h3)"
    unfolding lst by (rule forEach_reached [OF ok createCore_unsupported [OF kind]])
  with sto have "scheduleSpec goSyntax K instanceID spec (contexts, h1) =
          (Some (ErrFailedToScheduleApp spec
             (''Failed to create unsupported core component: '' @ goSyntax x @ ''.'')),
           (contexts, h3))"
    by (simp add: scheduleSpec_def)
  from forEach_reached [OF pre this]
  show ?thesis by (simp add: Schedule_resolved [OF res])
qed

lemma volumeParamsOf_other:
  "\<not> claimKind x \<Longrightarrow> volumeParamsOf K ctx x st = (None, st)"
  by (cases x; cases st) (simp_all add: volumeParamsOf_def)

lemma forEach_skip:
  "(\<And>s. f x s = (None, s)) \<Longrightarrow> forEach (pre @ x # post) f st = forEach (pre @ post) f st"
  by (simp add: forEach_append split: prod.splits option.splits)

lemma forEach_all_skip:
  "(\<And>x s. x \<in> set xs \<Longrightarrow> f x s = (None, s)) \<Longrightarrow> forEach xs f st = (None, st)"
  by (induction xs arbitrary: st) simp_all

lemma GetVolumes_no_claims:
  assumes "list_all (\<lambda>x. \<not> claimKind x) (Storage (App ctx) (UID ctx))"
  shows "GetVolumes K ctx h = (([], None), h)"
    and "GetVolumeParameters K ctx h = ((Some Map.empty, None), h)"
proof -
  have a: "forEach (Storage (App ctx) (UID ctx)) (volumeOf K ctx) ([], h) = (None, ([], h))"
    using assms by (intro forEach_all_skip volumeOf_other) (simp add: list_all_iff)
  have b: "forEach (Storage (App ctx) (UID ctx)) (volumeParamsOf K ctx) (Map.empty, h) =
             (None, (Map.empty, h))"
    using assms by (intro forEach_all_skip volumeParamsOf_other) (simp add: list_all_iff)
  from a show "GetVolumes K ctx h = (([], None), h)" by (simp add: GetVolumes_def)
  from b show "GetVolumeParameters K ctx h = ((Some Map.empty, None), h)"
    by (simp add: GetVolumeParameters_def)
qed

lemma stray_simps:
  "Storage strayCoreSpec i = [PersistentVolumeClaim ''p'']"
  "Core strayCoreSpec i = [Deployment ''d'', StorageClass ''sc'']"
  by (simp_all add: strayCoreSpec_def)

lemma wideRegistry_simps:
  "Get (factoryOf wideRegistry) key =
     (if key = ''echo'' then Inr echoSpec
      else if key = ''odd'' then Inr oddSpec
      else if key = ''stray'' then Inr strayCoreSpec
      else Inl (ErrUnknownAppKind key))"
  by (simp add: factoryOf_def wideRegistry_def)

lemma wide_resolve_odd:
  "resolveSpecs (factoryOf wideRegistry) \<lparr>AppKeys = [''echo'', ''odd'']\<rparr> =
     (None, [echoSpec, oddSpec])"
  by (simp add: resolveSpecs_def wideRegistry_simps)

lemma wide_resolve_stray:
  "resolveSpecs (factoryOf wideRegistry) \<lparr>AppKeys = [''stray'']\<rparr> = (None, [strayCoreSpec])"
  by (simp add: resolveSpecs_def wideRegistry_simps)

lemma demo_echo_ok:
  "scheduleSpec goSyntax (demoClient []) ''run-1'' echoSpec (contexts, h) =
     (None, (contexts @ [\<lparr>UID = ''run-1'', App = echoSpec\<rparr>],
             h @ [CreatePersistentVolumeClaimCall ''run-1-pvc'', CreateDeploymentCall ''run-1-echo'']))"
  by (simp add: scheduleSpec_def createStorage_def createCore_def demoClient_simps demoSpec_simps)

lemma Register_appends:
  "Register key spec reg = Some reg' \<Longrightarrow>
   GetAll (factoryOf reg') = GetAll (factoryOf reg) @ [spec] \<and> Get (factoryOf reg') key = Inr spec"
  by (auto simp: Register_def factoryOf_def map_add_def split: option.splits)

text \<open>
  Claim C2, as amended. \<open>Schedule\<close>, \<open>WaitForRunning\<close>, \<open>Destroy\<close>, \<open>WaitForDestroy\<close>,
  \<open>InspectVolumes\<close> and \<open>DeleteVolumes\<close> never pass over an object of a kind they have no
  branch for: a call whose resource list holds such an object always fails, with the
  operation's own error (\<open>FailedToScheduleApp\<close>, \<open>FailedToValidateApp\<close>,
  \<open>FailedToDestroyApp\<close>, \<open>FailedToValidateAppDestroy\<close>, \<open>FailedToValidateStorage\<close>,
  \<open>FailedToDestroyStorage\<close>; the driver builds no \<open>UnsupportedResourceKind\<close> error)
  carrying the App of the context or, for \<open>Schedule\<close>, one of the resolved specs. When the
  call reaches the object, everything before it having succeeded, the error carries the
  owning spec and a cause that describes the object (the operation's words for an
  unsupported component, then what \<^verbatim>\<open>%#v\<close> prints for the object, whatever that text
  is), and no call is issued for it.
  \<open>GetVolumes\<close> and \<open>GetVolumeParameters\<close> look only at the volume claims of the Storage
  list: any other object is passed over without an error and without a call.
\<close>

theorem unsupported_kind_never_skipped:
  "(x \<in> set (Core (App ctx) (UID ctx)) \<and> \<not> coreKind x \<longrightarrow>
      (\<exists>cause h'. WaitForRunning goSyntax K ctx h = (Some (ErrFailedToValidateApp (App ctx) cause), h')) \<and>
      (\<exists>cause h'. Destroy goSyntax K ctx h = (Some (ErrFailedToDestroyApp (App ctx) cause), h')) \<and>
      (\<exists>cause h'. WaitForDestroy goSyntax K ctx h =
                     (Some (ErrFailedToValidateAppDestroy (App ctx) cause), h'))) \<and>
   (x \<in> set (Storage (App ctx) (UID ctx)) \<and> \<not> storageKind x \<longrightarrow>
      (\<exists>cause h'. InspectVolumes goSyntax K ctx h = (Some (ErrFailedToValidateStorage (App ctx) cause), h')) \<and>
      (\<exists>cause h'. DeleteVolumes goSyntax K ctx h = (Some (ErrFailedToDestroyStorage (App ctx) cause), h'))) \<and>
   (resolveSpecs F options = (None, specs) \<and> spec \<in> set specs \<and>
    (x \<in> set (Storage spec instanceID) \<and> \<not> storageKind x \<or>
     x \<in> set (Core spec instanceID) \<and> \<not> coreKind x) \<longrightarrow>
      (\<exists>spec' cause h'. spec' \<in> set specs \<and>
         Schedule goSyntax F K instanceID options h =
           (([], Some (ErrFailedToScheduleApp spec' cause)), h'))) \<and>
   (Core (App ctx) (UID ctx) = pre @ x # post \<and> \<not> coreKind x \<longrightarrow>
      (forEach pre (validateCore goSyntax K ctx) h = (None, hv) \<longrightarrow>
         WaitForRunning goSyntax K ctx h =
           (Some (ErrFailedToValidateApp (App ctx)
              (''Failed to validate unsupported core component: '' @ goSyntax x @ ''.'')), hv)) \<and>
      (forEach pre (destroyCore goSyntax K ctx) h = (None, hv) \<longrightarrow>
         Destroy goSyntax K ctx h =
           (Some (ErrFailedToDestroyApp (App ctx)
              (''Failed to destroy unsupported core component: '' @ goSyntax x @ ''.'')), hv)) \<and>
      (forEach pre (validateDestroyCore goSyntax K ctx) h = (None, hv) \<longrightarrow>
         WaitForDestroy goSyntax K ctx h =
           (Some (ErrFailedToValidateAppDestroy (App ctx)
              (''Failed to validate destory of unsupported core component: '' @ goSyntax x @ ''.'')),
            hv))) \<and>
   (Storage (App ctx) (UID ctx) = pre @ x # post \<and> \<not> storageKind x \<longrightarrow>
      (forEach pre (validateStorage goSyntax K ctx) h = (None, hv) \<longrightarrow>
         InspectVolumes goSyntax K ctx h =
           (Some (ErrFailedToValidateStorage (App ctx)
              (''Failed to validate unsupported storage component: '' @ goSyntax x @ ''.'')), hv)) \<and>
      (forEach pre (destroyStorage goSyntax K ctx) h = (None, hv) \<longrightarrow>
         DeleteVolumes goSyntax K ctx h =
           (Some (ErrFailedToDestroyStorage (App ctx)
              (''Failed to destroy unsupported storage component: '' @ goSyntax x @ ''.'')), hv))) \<and>
   (resolveSpecs F options = (None, before @ spec # after) \<and>
    forEach before (scheduleSpec goSyntax K instanceID) ([], h) = (None, (contexts, ga)) \<longrightarrow>
      (Storage spec instanceID = lead @ x # rest \<and> \<not> storageKind x \<and>
       forEach lead (createStorage goSyntax K spec) ga = (None, gb) \<longrightarrow>
         Schedule goSyntax F K instanceID options h =
           (([], Some (ErrFailedToScheduleApp spec
                   (''Failed to create unsupported storage component: '' @ goSyntax x @ ''.''))),
            gb)) \<and>
      (forEach (Storage spec instanceID) (createStorage goSyntax K spec) ga = (None, gb) \<and>
       Core spec instanceID = lead @ x # rest \<and> \<not> coreKind x \<and>
       forEach lead (createCore goSyntax K spec) gb = (None, gc) \<longrightarrow>
         Schedule goSyntax F K instanceID options h =
           (([], Some (ErrFailedToScheduleApp spec
                   (''Failed to create unsupported core component: '' @ goSyntax x @ ''.''))),
            gc))) \<and>
   (list_all (\<lambda>obj. \<not> claimKind obj) (Storage (App ctx) (UID ctx)) \<longrightarrow>
      GetVolumes K ctx h = (([], None), h) \<and>
      GetVolumeParameters K ctx h = ((Some Map.empty, None), h)) \<and>
   (\<not> claimKind x \<longrightarrow>
      forEach (pre @ x # post) (volumeOf K ctx) st = forEach (pre @ post) (volumeOf K ctx) st \<and>
      forEach (pre @ x # post) (volumeParamsOf K ctx) st' =
        forEach (pre @ post) (volumeParamsOf K ctx) st')"
proof (intro conjI impI; (elim conjE)?)
  assume "x \<in> set (Core (App ctx) (UID ctx))" "\<not> coreKind x"
  then show "\<exists>cause h'. WaitForRunning goSyntax K ctx h = (Some (ErrFailedToValidateApp (App ctx) cause), h')"
    and "\<exists>cause h'. Destroy goSyntax K ctx h = (Some (ErrFailedToDestroyApp (App ctx) cause), h')"
    and "\<exists>cause h'. WaitForDestroy goSyntax K ctx h =
                     (Some (ErrFailedToValidateAppDestroy (App ctx) cause), h')"
    by (rule WaitForRunning_never_skips Destroy_never_skips WaitForDestroy_never_skips)+
next
  assume "x \<in> set (Storage (App ctx) (UID ctx))" "\<not> storageKind x"
  then show "\<exists>cause h'. InspectVolumes goSyntax K ctx h = (Some (ErrFailedToValidateStorage (App ctx) cause), h')"
    and "\<exists>cause h'. DeleteVolumes goSyntax K ctx h = (Some (ErrFailedToDestroyStorage (App ctx) cause), h')"
    by (rule InspectVolumes_never_skips DeleteVolumes_never_skips)+
next
  assume "resolveSpecs F options = (None, specs)" "spec \<in> set specs"
    "x \<in> set (Storage spec instanceID) \<and> \<not> storageKind x \<or>
     x \<in> set (Core spec instanceID) \<and> \<not> coreKind x"
  then show "\<exists>spec' cause h'. spec' \<in> set specs \<and>
         Schedule goSyntax F K instanceID options h =
           (([], Some (ErrFailedToScheduleApp spec' cause)), h')"
    by (rule Schedule_never_skips)
next
  assume "Core (App ctx) (UID ctx) = pre @ x # post" "\<not> coreKind x"
    "forEach pre (validateCore goSyntax K ctx) h = (None, hv)"
  then show "WaitForRunning goSyntax K ctx h =
           (Some (ErrFailedToValidateApp (App ctx)
              (''Failed to validate unsupported core component: '' @ goSyntax x @ ''.'')), hv)"
    by (rule WaitForRunning_reaches_unsupported)
next
  assume "Core (App ctx) (UID ctx) = pre @ x # post" "\<not> coreKind x"
    "forEach pre (destroyCore goSyntax K ctx) h = (None, hv)"
  then show "Destroy goSyntax K ctx h =
           (Some (ErrFailedToDestroyApp (App ctx)
              (''Failed to destroy unsupported core component: '' @ goSyntax x @ ''.'')), hv)"
    by (rule Destroy_reaches_unsupported)
next
  assume "Core (App ctx) (UID ctx) = pre @ x # post" "\<not> coreKind x"
    "forEach pre (validateDestroyCore goSyntax K ctx) h = (None, hv)"
  then show "WaitForDestroy goSyntax K ctx h =
           (Some (ErrFailedToValidateAppDestroy (App ctx)
              (''Failed to validate destory of unsupported core component: '' @ goSyntax x @ ''.'')),
            hv)"
    by (rule WaitForDestroy_reaches_unsupported)
next
  assume "Storage (App ctx) (UID ctx) = pre @ x # post" "\<not> storageKind x"
    "forEach pre (validateStorage goSyntax K ctx) h = (None, hv)"
  then show "InspectVolumes goSyntax K ctx h =
           (Some (ErrFailedToValidateStorage (App ctx)
              (''Failed to validate unsupported storage component: '' @ goSyntax x @ ''.'')), hv)"
    by (rule InspectVolumes_reaches_unsupported)
next
  assume "Storage (App ctx) (UID ctx) = pre @ x # post" "\<not> storageKind x"
    "forEach pre (destroyStorage goSyntax K ctx) h = (None, hv)"
  then show "DeleteVolumes goSyntax K ctx h =
           (Some (ErrFailedToDestroyStorage (App ctx)
              (''Failed to destroy unsupported storage component: '' @ goSyntax x @ ''.'')), hv)"
    by (rule DeleteVolumes_reaches_unsupported)
next
  assume "resolveSpecs F options = (None, before @ spec # after)"
    "forEach before (scheduleSpec goSyntax K instanceID) ([], h) = (None, (contexts, ga))"
    "Storage spec instanceID = lead @ x # rest" "\<not> storageKind x"
    "forEach lead (createStorage goSyntax K spec) ga = (None, gb)"
  then show "Schedule goSyntax F K instanceID options h =
           (([], Some (ErrFailedToScheduleApp spec
                   (''Failed to create unsupported storage component: '' @ goSyntax x @ ''.''))),
            gb)"
    by (rule Schedule_reaches_unsupported_storage)
next
  assume "resolveSpecs F options = (None, before @ spec # after)"
    "forEach before (scheduleSpec goSyntax K instanceID) ([], h) = (None, (contexts, ga))"
    "forEach (Storage spec instanceID) (createStorage goSyntax K spec) ga = (None, gb)"
    "Core spec instanceID = lead @ x # rest" "\<not> coreKind x"
    "forEach lead (createCore goSyntax K spec) gb = (None, gc)"
  then show "Schedule goSyntax F K instanceID options h =
           (([], Some (ErrFailedToScheduleApp spec
                   (''Failed to create unsupported core component: '' @ goSyntax x @ ''.''))),
            gc)"
    by (rule Schedule_reaches_unsupported_core)
next
  assume "list_all (\<lambda>obj. \<not> claimKind obj) (Storage (App ctx) (UID ctx))"
  then show "GetVolumes K ctx h = (([], None), h)"
    and "GetVolumeParameters K ctx h = ((Some Map.empty, None), h)"
    by (rule GetVolumes_no_claims)+
next
  assume "\<not> claimKind x"
  then show "forEach (pre @ x # post) (volumeOf K ctx) st = forEach (pre @ post) (volumeOf K ctx) st"
    and "forEach (pre @ x # post) (volumeParamsOf K ctx) st' =
        forEach (pre @ post) (volumeParamsOf K ctx) st'"
    by (simp_all add: forEach_skip volumeOf_other volumeParamsOf_other)
qed

theorem unsupported_kind_never_skipped_witness:
  "(OtherKind ''&v1.ConfigMap{}'') \<in> set (Core (App oddContext) (UID oddContext)) \<and> \<not> coreKind (OtherKind ''&v1.ConfigMap{}'') \<and>
   (OtherKind ''&v1.ConfigMap{}'') \<in> set (Storage (App oddContext) (UID oddContext)) \<and> \<not> storageKind (OtherKind ''&v1.ConfigMap{}'') \<and>
   resolveSpecs (factoryOf wideRegistry) \<lparr>AppKeys = [''echo'', ''odd'']\<rparr> = (None, [echoSpec, oddSpec]) \<and> oddSpec \<in> set [echoSpec, oddSpec] \<and>
    ((OtherKind ''&v1.ConfigMap{}'') \<in> set (Storage oddSpec ''run-1'') \<and> \<not> storageKind (OtherKind ''&v1.ConfigMap{}'') \<or>
     (OtherKind ''&v1.ConfigMap{}'') \<in> set (Core oddSpec ''run-1'') \<and> \<not> coreKind (OtherKind ''&v1.ConfigMap{}'')) \<and>
   Core (App oddContext) (UID oddContext) = [] @ (OtherKind ''&v1.ConfigMap{}'') # [] \<and> \<not> coreKind (OtherKind ''&v1.ConfigMap{}'') \<and>
   forEach [] (validateCore demoSyntax (demoClient []) oddContext) [] = (None, []) \<and>
   Storage (App oddContext) (UID oddContext) = [] @ (OtherKind ''&v1.ConfigMap{}'') # [] \<and> \<not> storageKind (OtherKind ''&v1.ConfigMap{}'') \<and>
   forEach [] (validateStorage demoSyntax (demoClient []) oddContext) [] = (None, []) \<and>
   resolveSpecs (factoryOf wideRegistry) \<lparr>AppKeys = [''echo'', ''odd'']\<rparr> = (None, [echoSpec] @ oddSpec # []) \<and>
    forEach [echoSpec] (scheduleSpec demoSyntax (demoClient []) ''run-1'') ([], []) = (None, ([\<lparr>UID = ''run-1'', App = echoSpec\<rparr>], [CreatePersistentVolumeClaimCall ''run-1-pvc'', CreateDeploymentCall ''run-1-echo''])) \<and>
   Storage oddSpec ''run-1'' = [] @ (OtherKind ''&v1.ConfigMap{}'') # [] \<and> \<not> storageKind (OtherKind ''&v1.ConfigMap{}'') \<and>
       forEach [] (createStorage demoSyntax (demoClient []) oddSpec) [CreatePersistentVolumeClaimCall ''run-1-pvc'', CreateDeploymentCall ''run-1-echo''] = (None, [CreatePersistentVolumeClaimCall ''run-1-pvc'', CreateDeploymentCall ''run-1-echo'']) \<and>
   list_all (\<lambda>obj. \<not> claimKind obj) (Storage (App oddContext) (UID oddContext)) \<and>
   Core (App strayContext) (UID strayContext) = [Deployment ''d''] @ (StorageClass ''sc'') # [] \<and> \<not> coreKind (StorageClass ''sc'') \<and>
   forEach [Deployment ''d''] (destroyCore demoSyntax (demoClient []) strayContext) [] = (None, [DeleteDeploymentCall ''d'']) \<and>
   resolveSpecs (factoryOf wideRegistry) \<lparr>AppKeys = [''stray'']\<rparr> = (None, [] @ strayCoreSpec # []) \<and>
    forEach [] (scheduleSpec demoSyntax (demoClient []) ''run-1'') ([], []) = (None, ([], [])) \<and>
   forEach (Storage strayCoreSpec ''run-1'') (createStorage demoSyntax (demoClient []) strayCoreSpec) [] = (None, [CreatePersistentVolumeClaimCall ''p'']) \<and>
       Core strayCoreSpec ''run-1'' = [Deployment ''d''] @ (StorageClass ''sc'') # [] \<and> \<not> coreKind (StorageClass ''sc'') \<and>
       forEach [Deployment ''d''] (createCore demoSyntax (demoClient []) strayCoreSpec) [CreatePersistentVolumeClaimCall ''p''] = (None, [CreatePersistentVolumeClaimCall ''p'', CreateDeploymentCall ''d'']) \<and>
   (\<exists>cause h'. WaitForRunning demoSyntax (demoClient []) oddContext [] = (Some (ErrFailedToValidateApp (App oddContext) cause), h')) \<and>
      (\<exists>cause h'. Destroy demoSyntax (demoClient []) oddContext [] = (Some (ErrFailedToDestroyApp (App oddContext) cause), h')) \<and>
      (\<exists>cause h'. WaitForDestroy demoSyntax (demoClient []) oddContext [] =
                     (Some (ErrFailedToValidateAppDestroy (App oddContext) cause), h')) \<and>
   (\<exists>cause h'. InspectVolumes demoSyntax (demoClient []) oddContext [] = (Some (ErrFailedToValidateStorage (App oddContext) cause), h')) \<and>
      (\<exists>cause h'. DeleteVolumes demoSyntax (demoClient []) oddContext [] = (Some (ErrFailedToDestroyStorage (App oddContext) cause), h')) \<and>
   (\<exists>spec' cause h'. spec' \<in> set [echoSpec, oddSpec] \<and>
         Schedule demoSyntax (factoryOf wideRegistry) (demoClient []) ''run-1'' \<lparr>AppKeys = [''echo'', ''odd'']\<rparr> [] =
           (([], Some (ErrFailedToScheduleApp spec' cause)), h')) \<and>
   WaitForRunning demoSyntax (demoClient []) oddContext [] =
           (Some (ErrFailedToValidateApp (App oddContext)
              (''Failed to validate unsupported core component: '' @ demoSyntax (OtherKind ''&v1.ConfigMap{}'') @ ''.'')), []) \<and>
   InspectVolumes demoSyntax (demoClient []) oddContext [] =
           (Some (ErrFailedToValidateStorage (App oddContext)
              (''Failed to validate unsupported storage component: '' @ demoSyntax (OtherKind ''&v1.ConfigMap{}'') @ ''.'')), []) \<and>
   Schedule demoSyntax (factoryOf wideRegistry) (demoClient []) ''run-1'' \<lparr>AppKeys = [''echo'', ''odd'']\<rparr> [] =
           (([], Some (ErrFailedToScheduleApp oddSpec
                   (''Failed to create unsupported storage component: '' @ demoSyntax (OtherKind ''&v1.ConfigMap{}'') @ ''.''))),
            [CreatePersistentVolumeClaimCall ''run-1-pvc'', CreateDeploymentCall ''run-1-echo'']) \<and>
   GetVolumes (demoClient []) oddContext [] = (([], None), []) \<and>
      GetVolumeParameters (demoClient []) oddContext [] = ((Some Map.empty, None), []) \<and>
   Destroy demoSyntax (demoClient []) strayContext [] =
           (Some (ErrFailedToDestroyApp (App strayContext)
              (''Failed to destroy unsupported core component: '' @ demoSyntax (StorageClass ''sc'') @ ''.'')), [DeleteDeploymentCall ''d'']) \<and>
   Schedule demoSyntax (factoryOf wideRegistry) (demoClient []) ''run-1'' \<lparr>AppKeys = [''stray'']\<rparr> [] =
           (([], Some (ErrFailedToScheduleApp strayCoreSpec
                   (''Failed to create unsupported core component: '' @ demoSyntax (StorageClass ''sc'') @ ''.''))),
            [CreatePersistentVolumeClaimCall ''p'', CreateDeploymentCall ''d''])"
proof -
  note T1 = unsupported_kind_never_skipped
    [where x = "(OtherKind ''&v1.ConfigMap{}'')" and
      ctx = "oddContext" and
      K = "(demoClient [])" and
      h = "[]" and
      pre = "[]" and
      post = "[]" and
      hv = "[]" and
      F = "(factoryOf wideRegistry)" and
      options = "\<lparr>AppKeys = [''echo'', ''odd'']\<rparr>" and
      specs = "[echoSpec, oddSpec]" and
      spec = "oddSpec" and
      instanceID = "''run-1''" and
      before = "[echoSpec]" and
      after = "[]" and
      contexts = "[\<lparr>UID = ''run-1'', App = echoSpec\<rparr>]" and
      ga = "[CreatePersistentVolumeClaimCall ''run-1-pvc'', CreateDeploymentCall ''run-1-echo'']" and
      gb = "[CreatePersistentVolumeClaimCall ''run-1-pvc'', CreateDeploymentCall ''run-1-echo'']" and
      gc = "[]" and
      lead = "[]" and
      rest = "[]" and
      st = "([], [])" and
      st' = "(Map.empty, [])"]
  note T2 = unsupported_kind_never_skipped
    [where x = "(StorageClass ''sc'')" and
      ctx = "strayContext" and
      K = "(demoClient [])" and
      h = "[]" and
      pre = "[Deployment ''d'']" and
      post = "[]" and
      hv = "[DeleteDeploymentCall ''d'']" and
      F = "(factoryOf wideRegistry)" and
      options = "\<lparr>AppKeys = [''stray'']\<rparr>" and
      specs = "[strayCoreSpec]" and
      spec = "strayCoreSpec" and
      instanceID = "''run-1''" and
      before = "[]" and
      after = "[]" and
      contexts = "[]" and
      ga = "[]" and
      gb = "[CreatePersistentVolumeClaimCall ''p'']" and
      gc = "[CreatePersistentVolumeClaimCall ''p'', CreateDeploymentCall ''d'']" and
      lead = "[Deployment ''d'']" and
      rest = "[]" and
      st = "([], [])" and
      st' = "(Map.empty, [])"]
  have a1h: "(OtherKind ''&v1.ConfigMap{}'') \<in> set (Core (App oddContext) (UID oddContext)) \<and> \<not> coreKind (OtherKind ''&v1.ConfigMap{}'')"
    by (simp add: oddContext_def strayContext_def demoSpec_simps stray_simps)
  have a2h: "(OtherKind ''&v1.ConfigMap{}'') \<in> set (Storage (App oddContext) (UID oddContext)) \<and> \<not> storageKind (OtherKind ''&v1.ConfigMap{}'')"
    by (simp add: oddContext_def strayContext_def demoSpec_simps stray_simps)
  have a3h: "resolveSpecs (factoryOf wideRegistry) \<lparr>AppKeys = [''echo'', ''odd'']\<rparr> = (None, [echoSpec, oddSpec]) \<and> oddSpec \<in> set [echoSpec, oddSpec] \<and>
    ((OtherKind ''&v1.ConfigMap{}'') \<in> set (Storage oddSpec ''run-1'') \<and> \<not> storageKind (OtherKind ''&v1.ConfigMap{}'') \<or>
     (OtherKind ''&v1.ConfigMap{}'') \<in> set (Core oddSpec ''run-1'') \<and> \<not> coreKind (OtherKind ''&v1.ConfigMap{}''))"
    by (simp add: wide_resolve_odd demoSpec_simps)
  have b1h: "Core (App oddContext) (UID oddContext) = [] @ (OtherKind ''&v1.ConfigMap{}'') # [] \<and> \<not> coreKind (OtherKind ''&v1.ConfigMap{}'')"
    by (simp add: oddContext_def strayContext_def demoSpec_simps stray_simps)
  have b1ah: "forEach [] (validateCore demoSyntax (demoClient []) oddContext) [] = (None, [])"
    by simp
  have b2h: "Storage (App oddContext) (UID oddContext) = [] @ (OtherKind ''&v1.ConfigMap{}'') # [] \<and> \<not> storageKind (OtherKind ''&v1.ConfigMap{}'')"
    by (simp add: oddContext_def strayContext_def demoSpec_simps stray_simps)
  have b2ah: "forEach [] (validateStorage demoSyntax (demoClient []) oddContext) [] = (None, [])"
    by simp
  have b3h: "resolveSpecs (factoryOf wideRegistry) \<lparr>AppKeys = [''echo'', ''odd'']\<rparr> = (None, [echoSpec] @ oddSpec # []) \<and>
    forEach [echoSpec] (scheduleSpec demoSyntax (demoClient []) ''run-1'') ([], []) = (None, ([\<lparr>UID = ''run-1'', App = echoSpec\<rparr>], [CreatePersistentVolumeClaimCall ''run-1-pvc'', CreateDeploymentCall ''run-1-echo'']))"
    by (simp add: wide_resolve_odd demo_echo_ok)
  have b3ah: "Storage oddSpec ''run-1'' = [] @ (OtherKind ''&v1.ConfigMap{}'') # [] \<and> \<not> storageKind (OtherKind ''&v1.ConfigMap{}'') \<and>
       forEach [] (createStorage demoSyntax (demoClient []) oddSpec) [CreatePersistentVolumeClaimCall ''run-1-pvc'', CreateDeploymentCall ''run-1-echo''] = (None, [CreatePersistentVolumeClaimCall ''run-1-pvc'', CreateDeploymentCall ''run-1-echo''])"
    by (simp add: demoSpec_simps)
  have gh: "list_all (\<lambda>obj. \<not> claimKind obj) (Storage (App oddContext) (UID oddContext))"
    by (simp add: oddContext_def strayContext_def demoSpec_simps stray_simps)
  have s1h: "Core (App strayContext) (UID strayContext) = [Deployment ''d''] @ (StorageClass ''sc'') # [] \<and> \<not> coreKind (StorageClass ''sc'')"
    by (simp add: oddContext_def strayContext_def demoSpec_simps stray_simps)
  have s1bh: "forEach [Deployment ''d''] (destroyCore demoSyntax (demoClient []) strayContext) [] = (None, [DeleteDeploymentCall ''d''])"
    by (simp add: destroyCore_def demoClient_simps)
  have s3h: "resolveSpecs (factoryOf wideRegistry) \<lparr>AppKeys = [''stray'']\<rparr> = (None, [] @ strayCoreSpec # []) \<and>
    forEach [] (scheduleSpec demoSyntax (demoClient []) ''run-1'') ([], []) = (None, ([], []))"
    by (simp add: wide_resolve_stray)
  have s3bh: "forEach (Storage strayCoreSpec ''run-1'') (createStorage demoSyntax (demoClient []) strayCoreSpec) [] = (None, [CreatePersistentVolumeClaimCall ''p'']) \<and>
       Core strayCoreSpec ''run-1'' = [Deployment ''d''] @ (StorageClass ''sc'') # [] \<and> \<not> coreKind (StorageClass ''sc'') \<and>
       forEach [Deployment ''d''] (createCore demoSyntax (demoClient []) strayCoreSpec) [CreatePersistentVolumeClaimCall ''p''] = (None, [CreatePersistentVolumeClaimCall ''p'', CreateDeploymentCall ''d''])"
    by (simp add: stray_simps createStorage_def createCore_def demoClient_simps)
  have a1c: "(\<exists>cause h'. WaitForRunning demoSyntax (demoClient []) oddContext [] = (Some (ErrFailedToValidateApp (App oddContext) cause), h')) \<and>
      (\<exists>cause h'. Destroy demoSyntax (demoClient []) oddContext [] = (Some (ErrFailedToDestroyApp (App oddContext) cause), h')) \<and>
      (\<exists>cause h'. WaitForDestroy demoSyntax (demoClient []) oddContext [] =
                     (Some (ErrFailedToValidateAppDestroy (App oddContext) cause), h'))"
    by (rule mp [OF T1 [THEN conjunct1] a1h])
  have a2c: "(\<exists>cause h'. InspectVolumes demoSyntax (demoClient []) oddContext [] = (Some (ErrFailedToValidateStorage (App oddContext) cause), h')) \<and>
      (\<exists>cause h'. DeleteVolumes demoSyntax (demoClient []) oddContext [] = (Some (ErrFailedToDestroyStorage (App oddContext) cause), h'))"
    by (rule mp [OF T1 [THEN conjunct2, THEN conjunct1] a2h])
  have a3c: "(\<exists>spec' cause h'. spec' \<in> set [echoSpec, oddSpec] \<and>
         Schedule demoSyntax (factoryOf wideRegistry) (demoClient []) ''run-1'' \<lparr>AppKeys = [''echo'', ''odd'']\<rparr> [] =
           (([], Some (ErrFailedToScheduleApp spec' cause)), h'))"
    by (rule mp [OF T1 [THEN conjunct2, THEN conjunct2, THEN conjunct1] a3h])
  have b1c: "WaitForRunning demoSyntax (demoClient []) oddContext [] =
           (Some (ErrFailedToValidateApp (App oddContext)
              (''Failed to validate unsupported core component: '' @ demoSyntax (OtherKind ''&v1.ConfigMap{}'') @ ''.'')), [])"
    by (rule mp [OF mp [OF T1 [THEN conjunct2, THEN conjunct2, THEN conjunct2, THEN conjunct1] b1h, THEN conjunct1] b1ah])
  have b2c: "InspectVolumes demoSyntax (demoClient []) oddContext [] =
           (Some (ErrFailedToValidateStorage (App oddContext)
              (''Failed to validate unsupported storage component: '' @ demoSyntax (OtherKind ''&v1.ConfigMap{}'') @ ''.'')), [])"
    by (rule mp [OF mp [OF T1 [THEN conjunct2, THEN conjunct2, THEN conjunct2, THEN conjunct2, THEN conjunct1] b2h, THEN conjunct1] b2ah])
  have b3c: "Schedule demoSyntax (factoryOf wideRegistry) (demoClient []) ''run-1'' \<lparr>AppKeys = [''echo'', ''odd'']\<rparr> [] =
           (([], Some (ErrFailedToScheduleApp oddSpec
                   (''Failed to create unsupported storage component: '' @ demoSyntax (OtherKind ''&v1.ConfigMap{}'') @ ''.''))),
            [CreatePersistentVolumeClaimCall ''run-1-pvc'', CreateDeploymentCall ''run-1-echo''])"
    by (rule mp [OF mp [OF T1 [THEN conjunct2, THEN conjunct2, THEN conjunct2, THEN conjunct2, THEN conjunct2, THEN conjunct1] b3h, THEN conjunct1] b3ah])
  have gc: "GetVolumes (demoClient []) oddContext [] = (([], None), []) \<and>
      GetVolumeParameters (demoClient []) oddContext [] = ((Some Map.empty, None), [])"
    by (rule mp [OF T1 [THEN conjunct2, THEN conjunct2, THEN conjunct2, THEN conjunct2, THEN conjunct2, THEN conjunct2, THEN conjunct1] gh])
  have s1c: "Destroy demoSyntax (demoClient []) strayContext [] =
           (Some (ErrFailedToDestroyApp (App strayContext)
              (''Failed to destroy unsupported core component: '' @ demoSyntax (StorageClass ''sc'') @ ''.'')), [DeleteDeploymentCall ''d''])"
    by (rule mp [OF mp [OF T2 [THEN conjunct2, THEN conjunct2, THEN conjunct2, THEN conjunct1] s1h, THEN conjunct2, THEN conjunct1] s1bh])
  have s3c: "Schedule demoSyntax (factoryOf wideRegistry) (demoClient []) ''run-1'' \<lparr>AppKeys = [''stray'']\<rparr> [] =
           (([], Some (ErrFailedToScheduleApp strayCoreSpec
                   (''Failed to create unsupported core component: '' @ demoSyntax (StorageClass ''sc'') @ ''.''))),
            [CreatePersistentVolumeClaimCall ''p'', CreateDeploymentCall ''d''])"
    by (rule mp [OF mp [OF T2 [THEN conjunct2, THEN conjunct2, THEN conjunct2, THEN conjunct2, THEN conjunct2, THEN conjunct1] s3h, THEN conjunct2] s3bh])
  show ?thesis
    using a1h a2h a3h b1h b1ah b2h b2ah b3h b3ah gh s1h s1bh s3h s3bh a1c a2c a3c b1c b2c b3c gc s1c s3c
    by - (intro conjI; (elim conjE)?; assumption)
qed

text \<open>
  The claim C2 as it was stated fails: \<open>GetVolumes\<close> on a context whose Storage list holds
  an object of an unknown kind returns no error at all, and \<open>WaitForRunning\<close> on the same
  context fails with \<open>FailedToValidateApp\<close>, not with an error of its own kind for the
  unsupported object.
\<close>

theorem unsupported_kind_counterexample:
  "OtherKind ''&v1.ConfigMap{}'' \<in> set (Storage (App oddContext) (UID oddContext)) \<and>
   \<not> claimKind (OtherKind ''&v1.ConfigMap{}'') \<and>
   GetVolumes (demoClient []) oddContext [] = (([], None), []) \<and>
   OtherKind ''&v1.ConfigMap{}'' \<in> set (Core (App oddContext) (UID oddContext)) \<and>
   \<not> coreKind (OtherKind ''&v1.ConfigMap{}'') \<and>
   WaitForRunning demoSyntax (demoClient []) oddContext [] =
     (Some (ErrFailedToValidateApp oddSpec
        ''Failed to validate unsupported core component: &v1.ConfigMap{}.''), [])"
  by (simp add: GetVolumes_def WaitForRunning_def oddContext_def demoSpec_simps
        volumeOf_def validateCore_def demoSyntax_def)

end
